theory Spec2Isabelle
  imports Complex_Main "HOL-Library.Char_ord" "HOL-Library.List_Lexorder"
begin

section \<open>Numbers and exceptions\<close>

text \<open>
  The scripts compute with numpy and pandas double-precision numbers. Finite values are
  idealised as reals (overflow and the sign of zero are not modelled, and rounding only
  where the need matrix is built, whose values depend on it); the non-finite
  values that division produces are kept, because HOL's own \<open>x / 0 = 0\<close> is not what
  numpy does: \<open>0 / 0\<close> is NaN and \<open>x / 0\<close> is an infinity, with a warning and no
  exception.
\<close>

datatype npfloat = Fin real | NaN | PInf | NInf

datatype error =
    ValueError string
  | IndexError
  | KeyError string
  | EOFError
  | FileNotFoundError
  | TypeError
  | SystemExit nat

definition np_isnan :: "npfloat \<Rightarrow> bool" where
  "np_isnan x = (x = NaN)"

definition np_truediv :: "real \<Rightarrow> real \<Rightarrow> npfloat" where
  \<comment> \<open>division of two finite numbers\<close>
  "np_truediv x y =
     (if y \<noteq> 0 then Fin (x / y)
      else if x = 0 then NaN
      else if 0 < x then PInf else NInf)"

fun np_mul :: "npfloat \<Rightarrow> npfloat \<Rightarrow> npfloat" where
  "np_mul NaN _ = NaN"
| "np_mul _ NaN = NaN"
| "np_mul (Fin x) (Fin y) = Fin (x * y)"
| "np_mul (Fin x) PInf = (if x = 0 then NaN else if 0 < x then PInf else NInf)"
| "np_mul (Fin x) NInf = (if x = 0 then NaN else if 0 < x then NInf else PInf)"
| "np_mul PInf (Fin y) = (if y = 0 then NaN else if 0 < y then PInf else NInf)"
| "np_mul NInf (Fin y) = (if y = 0 then NaN else if 0 < y then NInf else PInf)"
| "np_mul PInf PInf = PInf"
| "np_mul NInf NInf = PInf"
| "np_mul PInf NInf = NInf"
| "np_mul NInf PInf = NInf"

fun np_add :: "npfloat \<Rightarrow> npfloat \<Rightarrow> npfloat" where
  "np_add NaN _ = NaN"
| "np_add _ NaN = NaN"
| "np_add (Fin x) (Fin y) = Fin (x + y)"
| "np_add PInf NInf = NaN"
| "np_add NInf PInf = NaN"
| "np_add PInf _ = PInf"
| "np_add NInf _ = NInf"
| "np_add _ PInf = PInf"
| "np_add _ NInf = NInf"

fun np_div :: "npfloat \<Rightarrow> npfloat \<Rightarrow> npfloat" where
  "np_div NaN _ = NaN"
| "np_div _ NaN = NaN"
| "np_div (Fin x) (Fin y) = np_truediv x y"
| "np_div (Fin x) PInf = Fin 0"
| "np_div (Fin x) NInf = Fin 0"
| "np_div PInf (Fin y) = (if 0 \<le> y then PInf else NInf)"
| "np_div NInf (Fin y) = (if 0 \<le> y then NInf else PInf)"
| "np_div _ _ = NaN"

fun np_sqrt :: "npfloat \<Rightarrow> npfloat" where
  "np_sqrt (Fin x) = (if x < 0 then NaN else Fin (sqrt x))"
| "np_sqrt PInf = PInf"
| "np_sqrt _ = NaN"

section \<open>Vectors: sum, dot product, norm, mean\<close>

text \<open>
  A vector is a row of a table restricted to some columns. Its cells are numbers as
  pandas read them, so a cell may be NaN (an empty CSV cell, or a NaN written by an
  earlier stage).
\<close>

fun np_sum :: "npfloat list \<Rightarrow> npfloat" where
  "np_sum [] = Fin 0"
| "np_sum (x # xs) = np_add x (np_sum xs)"

definition np_dot :: "npfloat list \<Rightarrow> npfloat list \<Rightarrow> error + npfloat" where
  \<comment> \<open>\<open>np.dot\<close> of two one-dimensional arrays; it raises when the lengths differ\<close>
  "np_dot a b =
     (if length a \<noteq> length b then Inl (ValueError ''shapes not aligned'')
      else Inr (np_sum (map2 np_mul a b)))"

definition linalg_norm :: "npfloat list \<Rightarrow> npfloat" where
  \<comment> \<open>\<open>np.linalg.norm\<close>: the Euclidean norm\<close>
  "linalg_norm a = np_sqrt (np_sum (map (\<lambda>x. np_mul x x) a))"

definition np_mean :: "npfloat list \<Rightarrow> npfloat" where
  \<comment> \<open>\<open>ndarray.mean\<close>; the mean of an empty array is NaN (with a warning)\<close>
  "np_mean xs = np_div (np_sum xs) (Fin (real (length xs)))"

section \<open>Cosine similarity, as each script defines it\<close>

text \<open>
  \<open>compute_fitness.py\<close> guards the zero norm and returns 0 before anything else is
  computed. \<open>predict.py\<close> (both copies) and \<open>generate_all_scores.py\<close> define
  \<open>cosine\<close> as the bare quotient.
\<close>

definition cosine_compute_fitness :: "npfloat list \<Rightarrow> npfloat list \<Rightarrow> error + npfloat" where
  "cosine_compute_fitness a b =
     (if linalg_norm a = Fin 0 \<or> linalg_norm b = Fin 0 then Inr (Fin 0)
      else case np_dot a b of
             Inl e \<Rightarrow> Inl e
           | Inr d \<Rightarrow> Inr (np_div d (np_mul (linalg_norm a) (linalg_norm b))))"

definition cosine_predict :: "npfloat list \<Rightarrow> npfloat list \<Rightarrow> error + npfloat" where
  "cosine_predict a b =
     (case np_dot a b of
        Inl e \<Rightarrow> Inl e
      | Inr d \<Rightarrow> Inr (np_div d (np_mul (linalg_norm a) (linalg_norm b))))"

section \<open>Tables\<close>

text \<open>
  A table is a pandas DataFrame as \<open>read_csv\<close> returns it: the column names in file
  order, and the rows. A row is its key (the \<open>district\<close> cell of the need table, the
  \<open>NGO\<close> cell of the capability table), its numeric cells by column name, and the names
  of the columns in which the file holds text that is not a number: pandas keeps such a
  cell as a string (an empty cell is the number NaN). Only the names listed in
  \<open>columns\<close> are ever read, and the key column is assumed present. For
  \<open>compute_fitness.py\<close> the tables are taken after \<open>clean_cols\<close> has rewritten the
  column names.
\<close>

type_synonym row = "string \<times> (string \<Rightarrow> npfloat) \<times> string list"

definition cells :: "row \<Rightarrow> string \<Rightarrow> npfloat" where
  "cells r = fst (snd r)"

definition text_columns :: "row \<Rightarrow> string list" where
  "text_columns r = snd (snd r)"

record frame =
  columns :: "string list"
  rows :: "row list"

definition cats_of :: "frame \<Rightarrow> frame \<Rightarrow> string list" where
  \<comment> \<open>\<open>cats = [c for c in needs.columns if c in ngos.columns and c != "district"]\<close>\<close>
  "cats_of needs ngos =
     filter (\<lambda>c. c \<in> set (columns ngos) \<and> c \<noteq> ''district'') (columns needs)"

definition restrict :: "row \<Rightarrow> string list \<Rightarrow> npfloat list" where
  \<comment> \<open>\<open>row[cats].values\<close>, for a row whose cells in these columns are numbers\<close>
  "restrict r cats = map (cells r) cats"

definition has_text :: "row \<Rightarrow> string list \<Rightarrow> bool" where
  \<comment> \<open>one of these columns holds text in this row\<close>
  "has_text r cats = list_ex (\<lambda>c. c \<in> set (text_columns r)) cats"

definition astype_float :: "row \<Rightarrow> string list \<Rightarrow> error + npfloat list" where
  \<comment> \<open>\<open>row[cats].values.astype(float)\<close>: text that is not a number cannot be converted\<close>
  "astype_float r cats =
     (if has_text r cats then Inl (ValueError ''could not convert string to float'')
      else Inr (restrict r cats))"

definition urgency_of :: "npfloat list \<Rightarrow> npfloat" where
  \<comment> \<open>\<open>N.mean()/100\<close>\<close>
  "urgency_of N = np_div (np_mean N) (Fin 100)"

section \<open>Batch labels: compute\_fitness.py\<close>

record scored_pair =
  pair_NGO :: string
  pair_district :: string
  pair_match :: npfloat
  pair_urgency :: npfloat
  pair_fitness_score :: npfloat

definition label_heuristic :: "npfloat \<Rightarrow> npfloat \<Rightarrow> npfloat" where
  \<comment> \<open>\<open>score = 0.7*match + 0.3*urgency\<close>\<close>
  "label_heuristic m u = np_add (np_mul (Fin (7 / 10)) m) (np_mul (Fin (3 / 10)) u)"

definition score_pair :: "string list \<Rightarrow> row \<Rightarrow> row \<Rightarrow> error + scored_pair option" where
  \<comment> \<open>what the loops do for one pair: both conversions to float and the body of the
      inner loop; \<open>None\<close> is the \<open>continue\<close> on a NaN score\<close>
  "score_pair cats ngo reg =
     (case astype_float ngo cats of
        Inl e \<Rightarrow> Inl e
      | Inr C \<Rightarrow>
          (case astype_float reg cats of
             Inl e \<Rightarrow> Inl e
           | Inr N \<Rightarrow>
               (case cosine_compute_fitness C N of
                  Inl e \<Rightarrow> Inl e
                | Inr m \<Rightarrow>
                    (let u = urgency_of N; s = label_heuristic m u in
                     if np_isnan s then Inr None
                     else Inr (Some \<lparr>pair_NGO = fst ngo, pair_district = fst reg,
                                      pair_match = m, pair_urgency = u,
                                      pair_fitness_score = s\<rparr>)))))"

fun regions_loop ::
  "string list \<Rightarrow> row \<Rightarrow> row list \<Rightarrow> scored_pair list \<Rightarrow> error + scored_pair list" where
  "regions_loop cats ngo [] pairs = Inr pairs"
| "regions_loop cats ngo (reg # regs) pairs =
     (case score_pair cats ngo reg of
        Inl e \<Rightarrow> Inl e
      | Inr None \<Rightarrow> regions_loop cats ngo regs pairs
      | Inr (Some p) \<Rightarrow> regions_loop cats ngo regs (pairs @ [p]))"

fun ngos_loop ::
  "string list \<Rightarrow> row list \<Rightarrow> row list \<Rightarrow> scored_pair list \<Rightarrow> error + scored_pair list" where
  "ngos_loop cats [] regs pairs = Inr pairs"
| "ngos_loop cats (ngo # ngos) regs pairs =
     (case astype_float ngo cats of
        Inl e \<Rightarrow> Inl e
      | Inr C \<Rightarrow>
          (case regions_loop cats ngo regs pairs of
             Inl e \<Rightarrow> Inl e
           | Inr pairs' \<Rightarrow> ngos_loop cats ngos regs pairs'))"

definition compute_fitness :: "frame \<Rightarrow> frame \<Rightarrow> error + scored_pair list" where
  "compute_fitness needs ngos =
     (let cats = cats_of needs ngos in
      if cats = [] then Inl (ValueError ''No overlapping categories - check CSV headers!'')
      else ngos_loop cats (rows ngos) (rows needs) [])"

section \<open>Single-pair prediction: predict.py\<close>

text \<open>
  The trained regressor is opaque: \<open>model.predict\<close> is a parameter that, given match and
  urgency, returns a number or raises.
\<close>

type_synonym model = "npfloat \<Rightarrow> npfloat \<Rightarrow> error + real"

definition loc_first :: "row list \<Rightarrow> string \<Rightarrow> string list \<Rightarrow> error + npfloat list" where
  \<comment> \<open>\<open>df.loc[df[key] == name, cats].values[0]\<close>: the first row whose key equals the
      name; indexing an empty selection raises IndexError\<close>
  "loc_first rs name cats =
     (case filter (\<lambda>r. fst r = name) rs of
        [] \<Rightarrow> Inl IndexError
      | r # _ \<Rightarrow> Inr (restrict r cats))"

text \<open>
  The prediction scripts do not convert to float. When one cell of a column is text that
  is not a number, \<open>read_csv\<close> keeps every cell of that column as a string, the empty
  ones apart, which are NaN; the selected array then holds strings, and \<open>np.dot\<close>
  raises TypeError on the product of a string and a number.
\<close>

definition object_column :: "row list \<Rightarrow> string \<Rightarrow> bool" where
  "object_column rs c = list_ex (\<lambda>r. c \<in> set (text_columns r)) rs"

definition holds_str :: "row list \<Rightarrow> string \<Rightarrow> string list \<Rightarrow> bool" where
  \<comment> \<open>the array selected for this name holds a string\<close>
  "holds_str rs name cats =
     (case filter (\<lambda>r. fst r = name) rs of
        [] \<Rightarrow> False
      | r # _ \<Rightarrow>
          list_ex (\<lambda>c. object_column rs c
                        \<and> (c \<in> set (text_columns r) \<or> \<not> np_isnan (cells r c))) cats)"

definition calculate_match_and_urgency ::
  "frame \<Rightarrow> frame \<Rightarrow> string \<Rightarrow> string \<Rightarrow> error + (npfloat \<times> npfloat)" where
  "calculate_match_and_urgency needs ngos ngo_name region_name =
     (let cats = cats_of needs ngos in
      case loc_first (rows ngos) ngo_name cats of
        Inl e \<Rightarrow> Inl e
      | Inr ngo_vec \<Rightarrow>
          (case loc_first (rows needs) region_name cats of
             Inl e \<Rightarrow> Inl e
           | Inr reg_vec \<Rightarrow>
               if holds_str (rows ngos) ngo_name cats \<or> holds_str (rows needs) region_name cats
               then Inl TypeError
               else (case cosine_predict ngo_vec reg_vec of
                       Inl e \<Rightarrow> Inl e
                     | Inr m \<Rightarrow> Inr (m, urgency_of reg_vec))))"

definition predict_fitness ::
  "model \<Rightarrow> frame \<Rightarrow> frame \<Rightarrow> string \<Rightarrow> string \<Rightarrow> error + real" where
  "predict_fitness M needs ngos ngo_name region_name =
     (case calculate_match_and_urgency needs ngos ngo_name region_name of
        Inl e \<Rightarrow> Inl e
      | Inr (m, u) \<Rightarrow> M m u)"

text \<open>
  The command line of \<open>NOVA/data_generation/scripts/predict.py\<close>. What it prints is
  kept as a list of lines; a formatted number is kept as the number. \<open>sys.exit(1)\<close> is
  the error \<open>SystemExit 1\<close>.
\<close>

datatype printed = Text string | Number real

definition quoted :: "string \<Rightarrow> string" where
  "quoted s = [CHR 0x27] @ s @ [CHR 0x27]"

fun join :: "string \<Rightarrow> string list \<Rightarrow> string" where
  "join sep [] = []"
| "join sep [x] = x"
| "join sep (x # y # ys) = x @ sep @ join sep (y # ys)"

definition main ::
  "model \<Rightarrow> frame \<Rightarrow> frame \<Rightarrow> string list \<Rightarrow> printed list \<times> (error + unit)" where
  "main M needs ngos argv =
     (if length argv = 3 then
        (let ngo_name = argv ! 1; district_name = argv ! 2 in
         if ngo_name \<notin> set (map fst (rows ngos)) then
           ([Text (''Error: NGO '' @ quoted ngo_name @ '' not found.''),
             Text (''Available NGOs: '' @ join '', '' (take 10 (map fst (rows ngos))) @ ''...'')],
            Inl (SystemExit 1))
         else if district_name \<notin> set (map fst (rows needs)) then
           ([Text (''Error: District '' @ quoted district_name @ '' not found.''),
             Text (''Available districts: '' @ join '', '' (take 10 (map fst (rows needs)))
                   @ ''...'')],
            Inl (SystemExit 1))
         else
           (case predict_fitness M needs ngos ngo_name district_name of
              Inl e \<Rightarrow> ([], Inl e)
            | Inr score \<Rightarrow>
                ([Text ''Predicted Fitness Score: '', Number score,
                  Text (''NGO: '' @ ngo_name), Text (''District: '' @ district_name)],
                 Inr ())))
      else if length argv = 1 then
        (case predict_fitness M needs ngos ''Red Cross'' ''Sindhupalchok'' of
           Inl e \<Rightarrow> ([], Inl e)
         | Inr score \<Rightarrow>
             ([Text ''Predicted Fitness (Red Cross -> Sindhupalchok): '', Number score], Inr ()))
      else
        ([Text ''Usage: python predict.py [NGO_NAME] [DISTRICT_NAME]'',
          Text (''Example: python predict.py '' @ quoted ''CARE Nepal'' @ '' ''
                @ quoted ''Sindhupalchok''),
          Text ''Or run without arguments for default example.''],
         Inl (SystemExit 1)))"

section \<open>Batch prediction: generate\_all\_scores.py\<close>

text \<open>
  The body of the double loop is wrapped in \<open>try: ... except Exception as e: print(...);
  continue\<close>. \<open>SystemExit\<close> is not an \<open>Exception\<close> and would pass through the handler;
  every other error of the model is one. The progress lines are not modelled.
\<close>

definition is_Exception :: "error \<Rightarrow> bool" where
  "is_Exception e = (case e of SystemExit _ \<Rightarrow> False | _ \<Rightarrow> True)"

definition try_body :: "model \<Rightarrow> frame \<Rightarrow> frame \<Rightarrow> string \<Rightarrow> string \<Rightarrow> error + scored_pair" where
  "try_body M needs ngos ngo district =
     (case calculate_match_and_urgency needs ngos ngo district of
        Inl e \<Rightarrow> Inl e
      | Inr (m, u) \<Rightarrow>
          (case M m u of
             Inl e \<Rightarrow> Inl e
           | Inr fitness_score \<Rightarrow>
               Inr \<lparr>pair_NGO = ngo, pair_district = district, pair_match = m,
                    pair_urgency = u, pair_fitness_score = Fin fitness_score\<rparr>))"

type_synonym batch_state = "scored_pair list \<times> (string \<times> string \<times> error) list"

fun districts_loop ::
  "model \<Rightarrow> frame \<Rightarrow> frame \<Rightarrow> string \<Rightarrow> string list \<Rightarrow> batch_state \<Rightarrow> error + batch_state" where
  "districts_loop M needs ngos ngo [] st = Inr st"
| "districts_loop M needs ngos ngo (district # ds) (results, printed_errors) =
     (case try_body M needs ngos ngo district of
        Inr p \<Rightarrow> districts_loop M needs ngos ngo ds (results @ [p], printed_errors)
      | Inl e \<Rightarrow>
          if is_Exception e
          then districts_loop M needs ngos ngo ds
                 (results, printed_errors @ [(ngo, district, e)])
          else Inl e)"

fun names_loop ::
  "model \<Rightarrow> frame \<Rightarrow> frame \<Rightarrow> string list \<Rightarrow> string list \<Rightarrow> batch_state \<Rightarrow> error + batch_state" where
  "names_loop M needs ngos [] ds st = Inr st"
| "names_loop M needs ngos (ngo # ns) ds st =
     (case districts_loop M needs ngos ngo ds st of
        Inl e \<Rightarrow> Inl e
      | Inr st' \<Rightarrow> names_loop M needs ngos ns ds st')"

record batch_run =
  saved_csv :: "scored_pair list option"
  printed_errors :: "(string \<times> string \<times> error) list"
  returned :: "error + scored_pair list"

definition generate_all_scores :: "model \<Rightarrow> frame \<Rightarrow> frame \<Rightarrow> batch_run" where
  \<comment> \<open>after the CSV is saved the summary reads \<open>scores_df['match']\<close>, a KeyError on a table
      built from no rows\<close>
  "generate_all_scores M needs ngos =
     (let unique_ngos = sort (remdups (map fst (rows ngos)));
          unique_districts = sort (remdups (map fst (rows needs)))
      in case names_loop M needs ngos unique_ngos unique_districts ([], []) of
           Inl e \<Rightarrow> \<lparr>saved_csv = None, printed_errors = [], returned = Inl e\<rparr>
         | Inr (results, errs) \<Rightarrow>
             \<lparr>saved_csv = Some results, printed_errors = errs,
              returned = (if results = [] then Inl (KeyError ''match'') else Inr results)\<rparr>)"

section \<open>The need matrix: build\_need\_matrix.py\<close>

text \<open>
  \<open>df\<close> is the damage table merged with the population table on \<open>district\<close>: one
  record per district, its raw cells finite numbers.
\<close>

record district_data =
  district :: string
  houses_destroyed_pct :: real
  health_facilities_damaged_pct :: real
  water_facilities_damaged_pct :: real
  public_infra_damaged_pct :: real
  food_insecure_households_pct :: real
  displaced_pop_pct :: real
  road_accessibility_score :: real
  telecom_coverage_pct :: real
  poverty_rate :: real
  farmland_lost_pct :: real
  pop_density :: real

text \<open>
  The script and the scaler work in double precision, and what the scaler returns
  depends on the rounding. What rounding does to the exact result of one operation is
  the parameter \<open>fl\<close>, applied wherever the script or the scaler subtracts, divides,
  multiplies or adds.
\<close>

definition rounded :: "(real \<Rightarrow> real) \<Rightarrow> npfloat \<Rightarrow> npfloat" where
  "rounded fl c = (case c of Fin x \<Rightarrow> Fin (fl x) | _ \<Rightarrow> c)"

definition series_max :: "real list \<Rightarrow> npfloat" where
  \<comment> \<open>\<open>Series.max()\<close>; NaN on an empty series\<close>
  "series_max xs = (case xs of [] \<Rightarrow> NaN | x # ys \<Rightarrow> Fin (fold max ys x))"

definition shelter_need :: "district_data list \<Rightarrow> npfloat list" where
  "shelter_need df = map (\<lambda>r. Fin (houses_destroyed_pct r)) df"

definition wash_need :: "(real \<Rightarrow> real) \<Rightarrow> district_data list \<Rightarrow> npfloat list" where
  "wash_need fl df =
     map (\<lambda>r. rounded fl (np_mul (Fin (water_facilities_damaged_pct r))
                 (rounded fl (np_div (Fin (pop_density r)) (series_max (map pop_density df))))))
       df"

definition food_need :: "district_data list \<Rightarrow> npfloat list" where
  "food_need df = map (\<lambda>r. Fin (food_insecure_households_pct r)) df"

definition logistics_need :: "(real \<Rightarrow> real) \<Rightarrow> district_data list \<Rightarrow> npfloat list" where
  "logistics_need fl df = map (\<lambda>r. Fin (fl (100 - road_accessibility_score r))) df"

definition rescue_need :: "(real \<Rightarrow> real) \<Rightarrow> district_data list \<Rightarrow> npfloat list" where
  "rescue_need fl df =
     map (\<lambda>r. Fin (fl (fl (houses_destroyed_pct r * fl (100 - road_accessibility_score r))
                       / 100))) df"

definition health_need :: "district_data list \<Rightarrow> npfloat list" where
  "health_need df = map (\<lambda>r. Fin (health_facilities_damaged_pct r)) df"

definition cash_need :: "(real \<Rightarrow> real) \<Rightarrow> district_data list \<Rightarrow> npfloat list" where
  "cash_need fl df = map (\<lambda>r. Fin (fl (fl (poverty_rate r * houses_destroyed_pct r) / 100))) df"

definition comms_need :: "(real \<Rightarrow> real) \<Rightarrow> district_data list \<Rightarrow> npfloat list" where
  "comms_need fl df = map (\<lambda>r. Fin (fl (100 - telecom_coverage_pct r))) df"

definition psych_need :: "district_data list \<Rightarrow> npfloat list" where
  "psych_need df = map (\<lambda>r. Fin (displaced_pop_pct r)) df"

definition infra_need :: "district_data list \<Rightarrow> npfloat list" where
  "infra_need df = map (\<lambda>r. Fin (public_infra_damaged_pct r)) df"

definition agri_need :: "district_data list \<Rightarrow> npfloat list" where
  "agri_need df = map (\<lambda>r. Fin (farmland_lost_pct r)) df"

definition need_cols :: "(real \<Rightarrow> real) \<Rightarrow> district_data list \<Rightarrow> npfloat list list" where
  \<comment> \<open>\<open>df[need_cols]\<close> before scaling, column by column, in the order of \<open>need_cols\<close>\<close>
  "need_cols fl df =
     [shelter_need df, wash_need fl df, food_need df, logistics_need fl df, rescue_need fl df,
      health_need df, cash_need fl df, comms_need fl df, psych_need df, infra_need df,
      agri_need df]"

definition category_names :: "string list" where
  \<comment> \<open>the names the eleven columns are renamed to\<close>
  "category_names =
     [''Emergency Shelter & Housing'', ''Water & Sanitation Recovery'',
      ''Emergency Food Distribution'', ''Emergency Logistics & Transportation'',
      ''Search Rescue & Evacuation'', ''Emergency Health Response'',
      ''Immediate Cash Assistance'', ''Emergency Communications'',
      ''Psychosocial First Aid'', ''Critical Infrastructure Restoration'',
      ''Agricultural Recovery'']"

text \<open>
  scikit-learn's \<open>MinMaxScaler(feature_range)\<close>, as \<open>fit_transform\<close> computes it: per
  column, \<open>data_range = max - min\<close>, \<open>scale = (hi - lo) / data_range\<close> with a range
  below ten machine epsilons replaced by 1, \<open>min_ = lo - min * scale\<close> (\<open>shift\<close> below),
  and each cell becomes \<open>x * scale + min_\<close>. NaN cells are left out of the fit and stay
  NaN. A table with no row, or with an infinite cell, is refused with a ValueError. The
  bounds of the feature range are integers, and their difference is exact.
\<close>

fun finite_cells :: "npfloat list \<Rightarrow> real list" where
  "finite_cells [] = []"
| "finite_cells (Fin x # cs) = x # finite_cells cs"
| "finite_cells (_ # cs) = finite_cells cs"

definition is_inf :: "npfloat \<Rightarrow> bool" where
  "is_inf c = (c = PInf \<or> c = NInf)"

definition float_eps :: real where
  \<comment> \<open>\<open>np.finfo(np.float64).eps\<close>\<close>
  "float_eps = 1 / 2 ^ 52"

definition handle_zeros_in_scale :: "real \<Rightarrow> real" where
  "handle_zeros_in_scale r = (if r < 10 * float_eps then 1 else r)"

definition minmax_column ::
  "(real \<Rightarrow> real) \<Rightarrow> real \<Rightarrow> real \<Rightarrow> npfloat list \<Rightarrow> npfloat list" where
  "minmax_column fl lo hi col =
     (case finite_cells col of
        [] \<Rightarrow> map (\<lambda>_. NaN) col
      | x # xs \<Rightarrow>
          (let data_min = fold min xs x;
               data_max = fold max xs x;
               data_range = fl (data_max - data_min);
               scale = fl ((hi - lo) / handle_zeros_in_scale data_range);
               shift = fl (lo - fl (data_min * scale))
           in map (\<lambda>c. rounded fl (np_add (rounded fl (np_mul c (Fin scale))) (Fin shift)))
                col))"

definition fit_transform ::
  "(real \<Rightarrow> real) \<Rightarrow> real \<Rightarrow> real \<Rightarrow> npfloat list list \<Rightarrow> error + npfloat list list" where
  "fit_transform fl lo hi cols =
     (if list_all (\<lambda>col. col = []) cols
      then Inl (ValueError ''Found array with 0 sample(s)'')
      else if list_ex (list_ex is_inf) cols
      then Inl (ValueError ''Input X contains infinity'')
      else Inr (map (minmax_column fl lo hi) cols))"

record need_matrix =
  districts :: "string list"
  need_columns :: "(string \<times> npfloat list) list"

definition build_need_matrix_rounding ::
  "(real \<Rightarrow> real) \<Rightarrow> district_data list \<Rightarrow> error + need_matrix" where
  \<comment> \<open>the eleven scaled columns under their new names; the raw columns, also written to
      the CSV, are left out\<close>
  "build_need_matrix_rounding fl df =
     (case fit_transform fl 0 100 (need_cols fl df) of
        Inl e \<Rightarrow> Inl e
      | Inr scaled \<Rightarrow>
          Inr \<lparr>districts = map district df, need_columns = zip category_names scaled\<rparr>)"

definition build_need_matrix :: "district_data list \<Rightarrow> error + need_matrix" where
  \<comment> \<open>the script in exact arithmetic\<close>
  "build_need_matrix df = build_need_matrix_rounding (\<lambda>x. x) df"

definition need_vector :: "need_matrix \<Rightarrow> nat \<Rightarrow> npfloat list" where
  \<comment> \<open>the need cells of the i-th district\<close>
  "need_vector m i = map (\<lambda>(name, col). col ! i) (need_columns m)"

text \<open>
  What is asked of a rounding: it keeps the order, it leaves 0 alone, and the negative
  of a rounded number needs no rounding. Rounding to the nearest double is one, as long
  as nothing overflows, and so is no rounding at all.
\<close>

definition rounding :: "(real \<Rightarrow> real) \<Rightarrow> bool" where
  "rounding fl =
     ((\<forall>x y. x \<le> y \<longrightarrow> fl x \<le> fl y) \<and> fl 0 = 0 \<and> (\<forall>x. fl (- fl x) = - fl x))"

definition chop :: "real \<Rightarrow> real" where
  \<comment> \<open>a coarse rounding: toward zero, to a multiple of 1/1024\<close>
  "chop x =
     (if 0 \<le> x then of_int \<lfloor>x * 1024\<rfloor> / 1024 else - (of_int \<lfloor>- x * 1024\<rfloor> / 1024))"

text \<open>
  What the scaler delivers for one column under any rounding: as many scaled values as
  raw ones, the smallest of them 0, in the order of the raw values, and all 0 when the
  raw column is constant. And what it delivers in exact arithmetic: the largest scaled
  value is 100, unless the raw range is below ten machine epsilons, when it is 100 times
  that range.
\<close>

definition normalized_to :: "real list \<Rightarrow> real list \<Rightarrow> bool" where
  "normalized_to raw out =
     (length out = length raw
      \<and> Min (set out) = 0
      \<and> (\<forall>i < length raw. \<forall>j < length raw. raw ! i \<le> raw ! j \<longrightarrow> out ! i \<le> out ! j)
      \<and> (Max (set raw) = Min (set raw) \<longrightarrow> list_all (\<lambda>v. v = 0) out))"

definition exactly_normalized :: "real list \<Rightarrow> real list \<Rightarrow> bool" where
  "exactly_normalized raw out =
     (if Max (set raw) - Min (set raw) < 10 * float_eps
      then Max (set out) = 100 * (Max (set raw) - Min (set raw))
      else Max (set out) = 100)"

definition finite_column :: "nat \<Rightarrow> npfloat list \<Rightarrow> bool" where
  "finite_column n col = (\<exists>r. col = map Fin r \<and> length r = n)"

text \<open>Two small district tables: one district of population density 0, and two districts.\<close>

definition zero_density_table :: "district_data list" where
  "zero_density_table =
     [\<lparr>district = ''Gorkha'', houses_destroyed_pct = 80,
       health_facilities_damaged_pct = 60, water_facilities_damaged_pct = 50,
       public_infra_damaged_pct = 40, food_insecure_households_pct = 30,
       displaced_pop_pct = 20, road_accessibility_score = 20, telecom_coverage_pct = 70,
       poverty_rate = 25, farmland_lost_pct = 10, pop_density = 0\<rparr>]"

definition two_district_table :: "district_data list" where
  "two_district_table =
     [\<lparr>district = ''Gorkha'', houses_destroyed_pct = 80,
       health_facilities_damaged_pct = 60, water_facilities_damaged_pct = 50,
       public_infra_damaged_pct = 40, food_insecure_households_pct = 30,
       displaced_pop_pct = 20, road_accessibility_score = 20, telecom_coverage_pct = 70,
       poverty_rate = 25, farmland_lost_pct = 10, pop_density = 100\<rparr>,
      \<lparr>district = ''Kathmandu'', houses_destroyed_pct = 10,
       health_facilities_damaged_pct = 60, water_facilities_damaged_pct = 20,
       public_infra_damaged_pct = 30, food_insecure_households_pct = 5,
       displaced_pop_pct = 10, road_accessibility_score = 90, telecom_coverage_pct = 95,
       poverty_rate = 10, farmland_lost_pct = 0, pop_density = 400\<rparr>]"

section \<open>The other urgency: generate\_ngo\_scores.py\<close>

text \<open>
  This script scores every NGO against every district from the raw damage table, with
  no need vector: its urgency is a weighted blend of six raw indicators, and the row it
  writes holds that urgency times 100, rounded to two decimals.
\<close>

definition urgency_generate_ngo_scores :: "district_data \<Rightarrow> real" where
  "urgency_generate_ngo_scores district_data =
     (houses_destroyed_pct district_data * (2 / 10)
      + health_facilities_damaged_pct district_data * (15 / 100)
      + water_facilities_damaged_pct district_data * (15 / 100)
      + food_insecure_households_pct district_data * (2 / 10)
      + displaced_pop_pct district_data * (15 / 100)
      + (100 - road_accessibility_score district_data) * (15 / 100)) / 100"

definition rint :: "real \<Rightarrow> int" where
  \<comment> \<open>round to the nearest integer, ties to the even one\<close>
  "rint x =
     (let f = \<lfloor>x\<rfloor>; d = x - of_int f in
      if d < 1 / 2 then f
      else if 1 / 2 < d then f + 1
      else if even f then f else f + 1)"

definition round2 :: "real \<Rightarrow> real" where
  \<comment> \<open>\<open>round(x, 2)\<close>\<close>
  "round2 x = of_int (rint (x * 100)) / 100"

definition written_urgency :: "district_data \<Rightarrow> real" where
  \<comment> \<open>\<open>'urgency': round(urgency * 100, 2)\<close>\<close>
  "written_urgency district_data = round2 (urgency_generate_ngo_scores district_data * 100)"

text \<open>
  The spec's urgency: the arithmetic mean of the need vector's components, divided by
  100.
\<close>

definition mean_need_urgency :: "real list \<Rightarrow> real" where
  "mean_need_urgency ns = sum_list ns / real (length ns) / 100"

definition percentages :: "district_data \<Rightarrow> real list" where
  \<comment> \<open>the six raw indicators the blend reads\<close>
  "percentages d =
     [houses_destroyed_pct d, health_facilities_damaged_pct d,
      water_facilities_damaged_pct d, food_insecure_households_pct d,
      displaced_pop_pct d, road_accessibility_score d]"

definition worst_hit :: district_data where
  "worst_hit =
     \<lparr>district = ''Sindhupalchok'', houses_destroyed_pct = 100,
      health_facilities_damaged_pct = 100, water_facilities_damaged_pct = 100,
      public_infra_damaged_pct = 100, food_insecure_households_pct = 100,
      displaced_pop_pct = 100, road_accessibility_score = 0, telecom_coverage_pct = 0,
      poverty_rate = 100, farmland_lost_pct = 100, pop_density = 150\<rparr>"

section \<open>Saving the model: train\_model.py\<close>

text \<open>
  \<open>pickle.dump(model, open("outputs/model.pkl","wb"))\<close>. A file system maps a path to the
  bytes stored there. Opening with mode \<open>wb\<close> creates the file or truncates it to
  nothing; the pickle then reaches the file as the buffered writer flushes it, chunk
  after chunk. \<open>save_model\<close> lists the states of the file system, oldest first: before
  the call, after the open, and after every flush. There is no temporary file and no
  rename.
\<close>

type_synonym bytes = "nat list"
type_synonym file_system = "string \<Rightarrow> bytes option"

definition open_wb :: "string \<Rightarrow> file_system \<Rightarrow> file_system" where
  "open_wb path fs = fs(path \<mapsto> [])"

definition flush_chunk :: "string \<Rightarrow> bytes \<Rightarrow> file_system \<Rightarrow> file_system" where
  "flush_chunk path chunk fs =
     fs(path \<mapsto> (case fs path of None \<Rightarrow> chunk | Some old \<Rightarrow> old @ chunk))"

fun write_trace :: "string \<Rightarrow> bytes list \<Rightarrow> file_system \<Rightarrow> file_system list" where
  "write_trace path [] fs = []"
| "write_trace path (chunk # chunks) fs =
     (let fs' = flush_chunk path chunk fs in fs' # write_trace path chunks fs')"

definition save_model :: "string \<Rightarrow> bytes list \<Rightarrow> file_system \<Rightarrow> file_system list" where
  "save_model path chunks fs =
     fs # open_wb path fs # write_trace path chunks (open_wb path fs)"

definition pickle_load ::
  "(bytes \<Rightarrow> error + 'm) \<Rightarrow> file_system \<Rightarrow> string \<Rightarrow> error + 'm" where
  \<comment> \<open>\<open>pickle.load(open(path,"rb"))\<close>, as the readers call it; \<open>loads\<close> is the unpickler
      on a non-empty input\<close>
  "pickle_load loads fs path =
     (case fs path of
        None \<Rightarrow> Inl FileNotFoundError
      | Some bs \<Rightarrow> if bs = [] then Inl EOFError else loads bs)"

definition model_path :: string where
  "model_path = ''outputs/model.pkl''"

definition old_disk :: file_system where
  "old_disk = Map.empty(model_path \<mapsto> [1, 2, 3])"

section \<open>Example tables\<close>

definition gorkha :: row where
  "gorkha = (''Gorkha'', (\<lambda>_. Fin 0)(''Emergency Food Distribution'' := Fin 0,
                                     ''Water & Sanitation Recovery'' := Fin 100), [])"

definition red_cross :: row where
  "red_cross = (''Red Cross'', (\<lambda>_. Fin 0)(''Emergency Food Distribution'' := Fin 1,
                                           ''Water & Sanitation Recovery'' := Fin 0), [])"

definition needs_example :: frame where
  "needs_example =
     \<lparr>columns = [''district'', ''Emergency Food Distribution'', ''Water & Sanitation Recovery''],
      rows = [gorkha]\<rparr>"

definition ngos_example :: frame where
  "ngos_example =
     \<lparr>columns = [''NGO'', ''Emergency Food Distribution'', ''Water & Sanitation Recovery''],
      rows = [red_cross]\<rparr>"

definition example_cats :: "string list" where
  "example_cats = [''Emergency Food Distribution'', ''Water & Sanitation Recovery'']"

definition example_pair :: scored_pair where
  "example_pair =
     \<lparr>pair_NGO = ''Red Cross'', pair_district = ''Gorkha'', pair_match = Fin 0,
      pair_urgency = Fin (1 / 2), pair_fitness_score = Fin (3 / 20)\<rparr>"

definition worst_hit_needs :: need_matrix where
  "worst_hit_needs =
     \<lparr>districts = [''Sindhupalchok''],
      need_columns = map (\<lambda>name. (name, [Fin 0])) category_names\<rparr>"

definition constant_model :: model where
  \<comment> \<open>a regressor that predicts 42 whatever it is given\<close>
  "constant_model m u = Inr 42"

text \<open>
  The match and the label as the spec describes them: the cosine similarity of two
  vectors of real numbers, 0 when either norm is 0, and the label with match rescaled
  from [-1,1] by \<open>(match + 1) / 2\<close> before the weights are applied.
\<close>

definition dot_product :: "real list \<Rightarrow> real list \<Rightarrow> real" where
  "dot_product a b = sum_list (map2 (*) a b)"

definition euclidean_norm :: "real list \<Rightarrow> real" where
  "euclidean_norm a = sqrt (sum_list (map (\<lambda>x. x * x) a))"

definition cosine_similarity :: "real list \<Rightarrow> real list \<Rightarrow> real" where
  "cosine_similarity a b =
     (if euclidean_norm a = 0 \<or> euclidean_norm b = 0 then 0
      else dot_product a b / (euclidean_norm a * euclidean_norm b))"





definition needs_unrenamed :: frame where
  \<comment> \<open>a need table whose category columns still carry the working names\<close>
  "needs_unrenamed = \<lparr>columns = [''district'', ''food_need'', ''wash_need''], rows = [gorkha]\<rparr>"

definition nan_pair :: scored_pair where
  "nan_pair =
     \<lparr>pair_NGO = ''Red Cross'', pair_district = ''Gorkha'', pair_match = NaN,
      pair_urgency = NaN, pair_fitness_score = Fin 42\<rparr>"




definition lalitpur :: row where
  "lalitpur = (''Lalitpur'', (\<lambda>_. Fin 0)(''Emergency Food Distribution'' := Fin 50,
                                         ''Water & Sanitation Recovery'' := Fin 50), [])"

definition needs_even :: frame where
  "needs_even =
     \<lparr>columns = [''district'', ''Emergency Food Distribution'', ''Water & Sanitation Recovery''],
      rows = [lalitpur, gorkha]\<rparr>"

section \<open>What the batch scripts are expected to keep and to leave out\<close>

text \<open>
  For \<open>compute_fitness.py\<close>: the match of two numeric vectors of one length, 0 at a zero
  norm; the row of a pair of numeric rows, or nothing when its score is NaN; the table
  built from every NGO against every district, in loop order; and whether the loops
  reach a row that holds text in a shared column.
\<close>

definition guarded_match :: "npfloat list \<Rightarrow> npfloat list \<Rightarrow> npfloat" where
  "guarded_match C N =
     (if linalg_norm C = Fin 0 \<or> linalg_norm N = Fin 0 then Fin 0
      else np_div (np_sum (map2 np_mul C N)) (np_mul (linalg_norm C) (linalg_norm N)))"

definition label_row :: "string list \<Rightarrow> row \<Rightarrow> row \<Rightarrow> scored_pair option" where
  "label_row cats ngo reg =
     (let C = restrict ngo cats; N = restrict reg cats;
          m = guarded_match C N; u = urgency_of N; s = label_heuristic m u
      in if np_isnan s then None
         else Some \<lparr>pair_NGO = fst ngo, pair_district = fst reg,
                    pair_match = m, pair_urgency = u, pair_fitness_score = s\<rparr>)"

definition expected_labels :: "frame \<Rightarrow> frame \<Rightarrow> scored_pair list" where
  "expected_labels needs ngos =
     concat (map (\<lambda>ngo. List.map_filter (label_row (cats_of needs ngos) ngo) (rows needs))
               (rows ngos))"

definition unreadable :: "frame \<Rightarrow> frame \<Rightarrow> bool" where
  "unreadable needs ngos =
     (list_ex (\<lambda>ngo. has_text ngo (cats_of needs ngos)) (rows ngos)
      \<or> rows ngos \<noteq> [] \<and> list_ex (\<lambda>reg. has_text reg (cats_of needs ngos)) (rows needs))"

text \<open>
  For \<open>generate_all_scores.py\<close>: what the body of the loop does for every pair of names,
  in loop order; the rows of the pairs on which it succeeded, and the errors of the
  pairs on which it raised.
\<close>

definition outcomes ::
  "model \<Rightarrow> frame \<Rightarrow> frame \<Rightarrow> string list \<Rightarrow> string list
   \<Rightarrow> (string \<times> string \<times> (error + scored_pair)) list" where
  "outcomes M needs ngos names ds =
     concat (map (\<lambda>n. map (\<lambda>d. (n, d, try_body M needs ngos n d)) ds) names)"

definition kept :: "(string \<times> string \<times> (error + scored_pair)) list \<Rightarrow> scored_pair list" where
  "kept os = List.map_filter (\<lambda>(n, d, r). case r of Inr p \<Rightarrow> Some p | Inl _ \<Rightarrow> None) os"

definition swallowed ::
  "(string \<times> string \<times> (error + scored_pair)) list \<Rightarrow> (string \<times> string \<times> error) list" where
  "swallowed os =
     List.map_filter (\<lambda>(n, d, r). case r of Inl e \<Rightarrow> Some (n, d, e) | Inr _ \<Rightarrow> None) os"

definition idle :: row where
  \<comment> \<open>an NGO with no capability at all\<close>
  "idle = (''Idle Relief'', (\<lambda>_. Fin 0), [])"

definition ngos_with_idle :: frame where
  "ngos_with_idle =
     \<lparr>columns = [''NGO'', ''Emergency Food Distribution'', ''Water & Sanitation Recovery''],
      rows = [red_cross, idle]\<rparr>"

definition idle_pair :: scored_pair where
  "idle_pair =
     \<lparr>pair_NGO = ''Idle Relief'', pair_district = ''Gorkha'', pair_match = Fin 0,
      pair_urgency = Fin (1 / 2), pair_fitness_score = Fin (3 / 20)\<rparr>"

text \<open>
  A capability table in which the food cell of the Red Cross is empty and that of Local
  Aid reads \<open>high\<close>; both can help with water.
\<close>

definition red_cross_gap :: row where
  "red_cross_gap = (''Red Cross'', (\<lambda>_. Fin 0)(''Emergency Food Distribution'' := NaN,
                                               ''Water & Sanitation Recovery'' := Fin 1), [])"

definition local_aid :: row where
  "local_aid = (''Local Aid'', (\<lambda>_. Fin 0)(''Emergency Food Distribution'' := NaN,
                                           ''Water & Sanitation Recovery'' := Fin 1),
                [''Emergency Food Distribution''])"

definition ngos_text :: frame where
  "ngos_text =
     \<lparr>columns = [''NGO'', ''Emergency Food Distribution'', ''Water & Sanitation Recovery''],
      rows = [red_cross_gap, local_aid]\<rparr>"

definition gap_pair :: scored_pair where
  "gap_pair =
     \<lparr>pair_NGO = ''Red Cross'', pair_district = ''Gorkha'', pair_match = NaN,
      pair_urgency = Fin (1 / 2), pair_fitness_score = Fin 42\<rparr>"

definition raises_only_exceptions :: "model \<Rightarrow> bool" where
  \<comment> \<open>whatever the regressor raises is an \<open>Exception\<close>, as every error of scikit-learn is\<close>
  "raises_only_exceptions M = (\<forall>m u e. M m u = Inl e \<longrightarrow> is_Exception e)"

section \<open>Properties of the cosine functions\<close>

text \<open>
  C2. The claim asks that every code path computing match return exactly 0.0 for a
  zero-norm vector, with no NaN. The batch label script does; the prediction scripts and
  the batch prediction script divide 0 by 0: for the all-zero capability vector [0, 0]
  and the need vector [1, 2] their cosine is NaN, where the guarded one returns 0.
\<close>

theorem cosine_predict_zero_vector_is_nan:
  "cosine_predict [Fin 0, Fin 0] [Fin 1, Fin 2] = Inr NaN
   \<and> cosine_compute_fitness [Fin 0, Fin 0] [Fin 1, Fin 2] = Inr (Fin 0)"
  by (simp add: cosine_predict_def cosine_compute_fitness_def np_dot_def np_truediv_def
      linalg_norm_def)

section \<open>The need matrix is normalized\<close>

lemma cancel_range: "a \<noteq> 0 \<Longrightarrow> a * (100 / a) = (100::real)"
  by simp

lemma finite_cells_Fin: "finite_cells (map Fin ys) = ys"
  by (induction ys) auto

lemma rounded_cell:
  "rounded fl (np_add (rounded fl (np_mul (Fin y) (Fin sc))) (Fin sh)) = Fin (fl (fl (y * sc) + sh))"
  by (simp add: rounded_def)

lemma minmax_column_finite:
  assumes "ys \<noteq> []"
  shows "minmax_column fl 0 100 (map Fin ys) =
         map (\<lambda>y. Fin (fl (fl (y * fl (100 / handle_zeros_in_scale (fl (Max (set ys) - Min (set ys)))))
                          + fl (- fl (Min (set ys)
                                 * fl (100 / handle_zeros_in_scale (fl (Max (set ys) - Min (set ys))))))))) ys"
proof -
  obtain x xs where ys: "ys = x # xs" using assms by (cases ys) auto
  have mn: "fold min xs x = Min (set ys)" and mx: "fold max xs x = Max (set ys)"
    unfolding ys by (rule Min.set_eq_fold[symmetric], rule Max.set_eq_fold[symmetric])
  show ?thesis
    unfolding minmax_column_def finite_cells_Fin
    by (simp only: ys list.case Let_def mn[unfolded ys] mx[unfolded ys] diff_zero
        map_map comp_def rounded_cell diff_0)
qed

lemma minmax_ok:
  assumes fl: "rounding fl" and ne: "ys \<noteq> []"
  shows "\<exists>out. minmax_column fl 0 100 (map Fin ys) = map Fin out \<and> normalized_to ys out
           \<and> ((\<forall>x. fl x = x) \<longrightarrow> exactly_normalized ys out)"
proof -
  define mn where "mn = Min (set ys)"
  define mx where "mx = Max (set ys)"
  define sc where "sc = fl (100 / handle_zeros_in_scale (fl (mx - mn)))"
  define p where "p = fl (mn * sc)"
  define f where "f = (\<lambda>y. fl (fl (y * sc) + fl (- p)))"
  define out where "out = map f ys"
  have mono: "\<And>x y. x \<le> y \<Longrightarrow> fl x \<le> fl y" and zero: "fl 0 = 0"
    and neg: "\<And>x. fl (- fl x) = - fl x"
    using fl by (auto simp: rounding_def)
  have eq: "minmax_column fl 0 100 (map Fin ys) = map Fin out"
    using minmax_column_finite[OF ne, of fl]
    by (simp add: comp_def out_def f_def p_def sc_def mn_def mx_def)
  have fin: "finite (set ys)" "set ys \<noteq> {}" using ne by auto
  have lo: "mn \<le> y" and hi: "y \<le> mx" if "y \<in> set ys" for y
    using fin that by (auto simp: mn_def mx_def)
  have mn_in: "mn \<in> set ys" and mx_in: "mx \<in> set ys"
    unfolding mn_def mx_def using fin Min_in Max_in by blast+
  have hz: "0 < handle_zeros_in_scale r" for r
    by (simp add: handle_zeros_in_scale_def float_eps_def)
  have sc_nonneg: "0 \<le> sc"
  proof -
    have "0 \<le> 100 / handle_zeros_in_scale (fl (mx - mn))" using hz by (simp add: less_imp_le)
    from mono[OF this] show ?thesis by (simp add: sc_def zero)
  qed
  have np: "fl (- p) = - p" unfolding p_def by (rule neg)
  have f_mono: "f x \<le> f y" if "x \<le> y" for x y
  proof -
    have "x * sc \<le> y * sc" using that sc_nonneg by (rule mult_right_mono)
    then have "fl (x * sc) \<le> fl (y * sc)" by (rule mono)
    then have "fl (x * sc) + fl (- p) \<le> fl (y * sc) + fl (- p)" by simp
    then show ?thesis unfolding f_def by (rule mono)
  qed
  have f_mn: "f mn = 0" by (simp add: f_def np p_def[symmetric] zero)
  have fo: "finite (set out)" "set out \<noteq> {}" using ne by (auto simp: out_def)
  have z: "0 \<in> set out" using mn_in f_mn by (force simp: out_def)
  have ge: "0 \<le> v" if "v \<in> set out" for v
  proof -
    from that obtain y where y: "y \<in> set ys" "v = f y" by (auto simp: out_def)
    show ?thesis using f_mono[OF lo[OF y(1)]] f_mn y(2) by simp
  qed
  have min0: "Min (set out) = 0" using fo z ge by (intro Min_eqI) auto
  have order: "\<forall>i < length ys. \<forall>j < length ys. ys ! i \<le> ys ! j \<longrightarrow> out ! i \<le> out ! j"
    by (simp add: out_def f_mono)
  have const: "list_all (\<lambda>v. v = 0) out" if "mx = mn"
  proof -
    have "y = mn" if "y \<in> set ys" for y
      using lo[OF that] hi[OF that] \<open>mx = mn\<close> by simp
    then have "f y = 0" if "y \<in> set ys" for y using that f_mn by simp
    then show ?thesis by (simp add: out_def list_all_iff)
  qed
  have n: "normalized_to ys out"
    using min0 order const by (simp add: normalized_to_def out_def mn_def mx_def)
  have ex: "exactly_normalized ys out" if id: "\<forall>x. fl x = x"
  proof -
    have fy: "f y = (y - mn) * sc" for y
      by (simp add: f_def p_def id algebra_simps)
    have top: "f mx \<in> set out" using mx_in by (simp add: out_def)
    have le: "v \<le> f mx" if "v \<in> set out" for v
    proof -
      from that obtain y where y: "y \<in> set ys" "v = f y" by (auto simp: out_def)
      show ?thesis using f_mono[OF hi[OF y(1)]] y(2) by simp
    qed
    have mx_out: "Max (set out) = f mx" using fo top le by (intro Max_eqI) auto
    show ?thesis
    proof (cases "mx - mn < 10 * float_eps")
      case True
      then have "sc = 100" by (simp add: sc_def id handle_zeros_in_scale_def)
      then show ?thesis
        using True mx_out by (simp add: exactly_normalized_def fy mn_def mx_def)
    next
      case False
      then have pos: "0 < mx - mn" by (simp add: float_eps_def)
      from False have "sc = 100 / (mx - mn)" by (simp add: sc_def id handle_zeros_in_scale_def)
      moreover have "(mx - mn) * (100 / (mx - mn)) = 100"
        by (rule cancel_range) (use pos in simp)
      ultimately have "f mx = 100" by (simp only: fy)
      then show ?thesis
        using False mx_out by (simp add: exactly_normalized_def mn_def mx_def)
    qed
  qed
  from eq n ex show ?thesis by blast
qed

lemma not_inf_Fin: "\<not> list_ex is_inf (map Fin r)"
  by (induction r) (auto simp: is_inf_def)

lemma wash_need_finite:
  assumes "df \<noteq> []" and "series_max (map pop_density df) \<noteq> Fin 0"
  shows "\<exists>r. wash_need fl df = map Fin r \<and> length r = length df"
proof -
  obtain M where M: "series_max (map pop_density df) = Fin M"
    using assms(1) by (cases df) (auto simp: series_max_def)
  with assms(2) have "M \<noteq> 0" by simp
  then have "wash_need fl df =
      map Fin (map (\<lambda>r. fl (water_facilities_damaged_pct r * fl (pop_density r / M))) df)"
    by (simp add: wash_need_def M np_truediv_def rounded_def)
  then show ?thesis by (metis length_map)
qed

lemma finite_column_map: "finite_column (length df) (map (\<lambda>d. Fin (f d)) df)"
  unfolding finite_column_def by (rule exI[of _ "map f df"]) simp

lemma need_cols_finite:
  assumes "df \<noteq> []" and "series_max (map pop_density df) \<noteq> Fin 0"
  shows "list_all (finite_column (length df)) (need_cols fl df)"
proof -
  have w: "finite_column (length df) (wash_need fl df)"
    using wash_need_finite[OF assms] by (simp add: finite_column_def)
  have plain:
    "finite_column (length df) (shelter_need df)"
    "finite_column (length df) (food_need df)"
    "finite_column (length df) (logistics_need fl df)"
    "finite_column (length df) (rescue_need fl df)"
    "finite_column (length df) (health_need df)"
    "finite_column (length df) (cash_need fl df)"
    "finite_column (length df) (comms_need fl df)"
    "finite_column (length df) (psych_need df)"
    "finite_column (length df) (infra_need df)"
    "finite_column (length df) (agri_need df)"
    unfolding shelter_need_def food_need_def logistics_need_def
      rescue_need_def health_need_def cash_need_def comms_need_def psych_need_def
      infra_need_def agri_need_def
    by (rule finite_column_map)+
  show ?thesis
    unfolding need_cols_def by (simp only: list.pred_inject w plain simp_thms)
qed

text \<open>
  C1 (amended). Over a non-empty district table whose largest population density is not
  0, the script returns the eleven renamed columns, every raw and every scaled cell a
  finite number. Whatever the rounding, as long as nothing overflows, the minimum of
  each scaled column is exactly 0, no scaled value is negative, the scaled values are in
  the order of the raw ones, so that the largest raw value gets the largest scaled
  value, and a column whose raw values are all equal is all 0. The maximum is 100 in
  exact arithmetic, for a raw range of at least ten machine epsilons, and 100 times the
  range below that; in double precision it is 100 only up to rounding.
\<close>

theorem build_need_matrix_normalized:
  assumes "rounding fl" and "df \<noteq> []" and "series_max (map pop_density df) \<noteq> Fin 0"
  shows "\<exists>m. build_need_matrix_rounding fl df = Inr m
           \<and> districts m = map district df
           \<and> map fst (need_columns m) = category_names
           \<and> list_all2 (\<lambda>raw scaled. \<exists>r out. raw = map Fin r \<and> scaled = map Fin out
                                           \<and> normalized_to r out
                                           \<and> ((\<forall>x. fl x = x) \<longrightarrow> exactly_normalized r out))
                 (need_cols fl df) (map snd (need_columns m))"
proof -
  define cols where "cols = need_cols fl df"
  define scaled where "scaled = map (minmax_column fl 0 100) cols"
  have fin: "list_all (finite_column (length df)) cols"
    unfolding cols_def by (rule need_cols_finite[OF assms(2,3)])
  have len: "length cols = 11" by (simp add: cols_def need_cols_def)
  have nonempty: "\<not> list_all (\<lambda>col. col = []) cols"
    using assms(2) by (simp add: cols_def need_cols_def shelter_need_def)
  have noinf: "\<not> list_ex (list_ex is_inf) cols"
  proof
    assume "list_ex (list_ex is_inf) cols"
    then obtain col where col: "col \<in> set cols" "list_ex is_inf col"
      by (auto simp: list_ex_iff)
    with fin obtain r where "col = map Fin r"
      by (auto simp: list_all_iff finite_column_def)
    with col(2) show False using not_inf_Fin by blast
  qed
  have ft: "fit_transform fl 0 100 cols = Inr scaled"
    using nonempty noinf by (simp add: fit_transform_def scaled_def)
  define m where "m = \<lparr>districts = map district df, need_columns = zip category_names scaled\<rparr>"
  have b: "build_need_matrix_rounding fl df = Inr m"
    using ft by (simp add: build_need_matrix_rounding_def m_def cols_def)
  have lc: "length category_names = 11" by (simp add: category_names_def)
  have ls: "length scaled = 11" using len by (simp add: scaled_def)
  have d_ok: "districts m = map district df" by (simp add: m_def)
  have fst_ok: "map fst (need_columns m) = category_names"
    using ls lc by (simp add: m_def)
  have snd_ok: "map snd (need_columns m) = scaled"
    using ls lc by (simp add: m_def)
  have all2: "list_all2 (\<lambda>raw scaled. \<exists>r out. raw = map Fin r \<and> scaled = map Fin out
                                     \<and> normalized_to r out
                                     \<and> ((\<forall>x. fl x = x) \<longrightarrow> exactly_normalized r out))
                cols scaled"
  proof (rule list_all2_all_nthI)
    show "length cols = length scaled" by (simp add: scaled_def)
  next
    fix n assume n: "n < length cols"
    then have "cols ! n \<in> set cols" by simp
    with fin obtain r where r: "cols ! n = map Fin r" "length r = length df"
      by (auto simp: list_all_iff finite_column_def)
    then have "r \<noteq> []" using assms(2) by auto
    from minmax_ok[OF assms(1) this] obtain out where
      o: "minmax_column fl 0 100 (map Fin r) = map Fin out" "normalized_to r out"
         "(\<forall>x. fl x = x) \<longrightarrow> exactly_normalized r out" by blast
    have "scaled ! n = map Fin out" using n o(1) r(1) by (simp add: scaled_def)
    with r(1) o(2,3)
    show "\<exists>r out. cols ! n = map Fin r \<and> scaled ! n = map Fin out \<and> normalized_to r out
                   \<and> ((\<forall>x. fl x = x) \<longrightarrow> exactly_normalized r out)"
      by blast
  qed
  show ?thesis
    apply (rule exI[of _ m])
    using b d_ok fst_ok all2 unfolding snd_ok cols_def by (intro conjI)
qed

lemmas need_defs = need_cols_def shelter_need_def food_need_def logistics_need_def
  rescue_need_def health_need_def cash_need_def comms_need_def psych_need_def
  infra_need_def agri_need_def wash_need_def series_max_def

lemmas scaler_defs = build_need_matrix_def build_need_matrix_rounding_def fit_transform_def
  minmax_column_def handle_zeros_in_scale_def float_eps_def rounded_def is_inf_def
  np_truediv_def category_names_def

lemma two_district_table_normalized:
  "build_need_matrix two_district_table =
   Inr \<lparr>districts = [''Gorkha'', ''Kathmandu''],
        need_columns =
          [(''Emergency Shelter & Housing'', [Fin 100, Fin 0]),
           (''Water & Sanitation Recovery'', [Fin 0, Fin 100]),
           (''Emergency Food Distribution'', [Fin 100, Fin 0]),
           (''Emergency Logistics & Transportation'', [Fin 100, Fin 0]),
           (''Search Rescue & Evacuation'', [Fin 100, Fin 0]),
           (''Emergency Health Response'', [Fin 0, Fin 0]),
           (''Immediate Cash Assistance'', [Fin 100, Fin 0]),
           (''Emergency Communications'', [Fin 100, Fin 0]),
           (''Psychosocial First Aid'', [Fin 100, Fin 0]),
           (''Critical Infrastructure Restoration'', [Fin 100, Fin 0]),
           (''Agricultural Recovery'', [Fin 100, Fin 0])]\<rparr>"
  by (simp add: scaler_defs need_defs two_district_table_def)

lemma no_rounding: "rounding (\<lambda>x. x)"
  by (simp add: rounding_def)

lemma chop_of_int: "chop (of_int k / 1024) = of_int k / 1024"
  by (simp add: chop_def)

lemma chop_grid: "\<exists>k. chop x = of_int k / 1024"
proof (cases "0 \<le> x")
  case True
  then show ?thesis by (auto simp: chop_def)
next
  case False
  then have "chop x = of_int (- \<lfloor>- x * 1024\<rfloor>) / 1024" by (simp add: chop_def)
  then show ?thesis by blast
qed

lemma chop_neg: "chop (- chop x) = - chop x"
proof -
  obtain k where k: "chop x = of_int k / 1024" using chop_grid by blast
  have "chop (- (of_int k / 1024)) = chop (of_int (- k) / 1024)" by simp
  also have "\<dots> = of_int (- k) / 1024" by (rule chop_of_int)
  finally show ?thesis by (simp add: k)
qed

lemma chop_mono: "x \<le> y \<Longrightarrow> chop x \<le> chop y"
proof -
  assume xy: "x \<le> y"
  show ?thesis
  proof (cases "0 \<le> x")
    case True
    then have "0 \<le> y" using xy by simp
    moreover have "\<lfloor>x * 1024\<rfloor> \<le> \<lfloor>y * 1024\<rfloor>" using xy by (intro floor_mono) simp
    ultimately show ?thesis using True by (simp add: chop_def divide_right_mono)
  next
    case False
    note xneg = this
    show ?thesis
    proof (cases "0 \<le> y")
      case True
      have "0 \<le> \<lfloor>- x * 1024\<rfloor>" using xneg by simp
      moreover have "0 \<le> \<lfloor>y * 1024\<rfloor>" using True by simp
      ultimately have "- (of_int \<lfloor>- x * 1024\<rfloor> / 1024) \<le> (0::real)"
        "(0::real) \<le> of_int \<lfloor>y * 1024\<rfloor> / 1024"
        by simp_all
      then have "- (of_int \<lfloor>- x * 1024\<rfloor> / 1024) \<le> (of_int \<lfloor>y * 1024\<rfloor> / 1024 :: real)"
        by (rule order_trans)
      then show ?thesis using xneg True by (simp only: chop_def if_True if_False)
    next
      case False
      have "\<lfloor>- y * 1024\<rfloor> \<le> \<lfloor>- x * 1024\<rfloor>" using xy by (intro floor_mono) simp
      then show ?thesis using xneg False by (simp add: chop_def divide_right_mono)
    qed
  qed
qed

lemma rounding_chop: "rounding chop"
  by (simp add: rounding_def chop_mono chop_neg) (simp add: chop_def)

lemma chop_values:
  "chop 70 = 70" "chop (10 / 7) = 731 / 512" "chop (3655 / 256) = 3655 / 256"
  "chop (- (3655 / 256)) = - (3655 / 256)" "chop (3655 / 32) = 3655 / 32"
  "chop (25585 / 256) = 25585 / 256" "chop 0 = 0"
  by (simp_all add: chop_def)

text \<open>
  Under the coarse rounding the largest scaled shelter need of the two districts, whose
  raw values are 80 and 10, is 99.94140625 and not 100.
\<close>

lemma rounded_maximum_below_100:
  "minmax_column chop 0 100 (shelter_need two_district_table) = [Fin (25585 / 256), Fin 0]"
  by (simp add: shelter_need_def two_district_table_def minmax_column_def
      handle_zeros_in_scale_def float_eps_def rounded_def chop_values)

text \<open>
  The two-district table in exact arithmetic and under the coarse rounding.
\<close>

theorem build_need_matrix_normalized_witness:
  "rounding (\<lambda>x. x) \<and> rounding chop
   \<and> two_district_table \<noteq> [] \<and> series_max (map pop_density two_district_table) \<noteq> Fin 0
   \<and> (\<exists>m. build_need_matrix_rounding (\<lambda>x. x) two_district_table = Inr m
           \<and> districts m = map district two_district_table
           \<and> map fst (need_columns m) = category_names
           \<and> list_all2 (\<lambda>raw scaled. \<exists>r out. raw = map Fin r \<and> scaled = map Fin out
                                           \<and> normalized_to r out \<and> exactly_normalized r out)
                 (need_cols (\<lambda>x. x) two_district_table) (map snd (need_columns m)))
   \<and> (\<exists>m. build_need_matrix_rounding chop two_district_table = Inr m
           \<and> districts m = map district two_district_table
           \<and> map fst (need_columns m) = category_names
           \<and> list_all2 (\<lambda>raw scaled. \<exists>r out. raw = map Fin r \<and> scaled = map Fin out
                                           \<and> normalized_to r out)
                 (need_cols chop two_district_table) (map snd (need_columns m)))"
proof -
  have h1: "two_district_table \<noteq> []" by (simp add: two_district_table_def)
  have h2: "series_max (map pop_density two_district_table) \<noteq> Fin 0"
    by (simp add: two_district_table_def series_max_def)
  have a: "\<exists>m. build_need_matrix_rounding (\<lambda>x. x) two_district_table = Inr m
           \<and> districts m = map district two_district_table
           \<and> map fst (need_columns m) = category_names
           \<and> list_all2 (\<lambda>raw scaled. \<exists>r out. raw = map Fin r \<and> scaled = map Fin out
                                           \<and> normalized_to r out \<and> exactly_normalized r out)
                 (need_cols (\<lambda>x. x) two_district_table) (map snd (need_columns m))"
    using build_need_matrix_normalized[OF no_rounding h1 h2] by simp
  from build_need_matrix_normalized[OF rounding_chop h1 h2] obtain m where
    m: "build_need_matrix_rounding chop two_district_table = Inr m"
       "districts m = map district two_district_table"
       "map fst (need_columns m) = category_names"
       "list_all2 (\<lambda>raw scaled. \<exists>r out. raw = map Fin r \<and> scaled = map Fin out
                                           \<and> normalized_to r out
                                           \<and> ((\<forall>x. chop x = x) \<longrightarrow> exactly_normalized r out))
                 (need_cols chop two_district_table) (map snd (need_columns m))"
    by blast
  from m(4) have "list_all2 (\<lambda>raw scaled. \<exists>r out. raw = map Fin r \<and> scaled = map Fin out
                                           \<and> normalized_to r out)
                 (need_cols chop two_district_table) (map snd (need_columns m))"
    by (rule list_all2_mono) blast
  with m(1,2,3) have b: "\<exists>m. build_need_matrix_rounding chop two_district_table = Inr m
           \<and> districts m = map district two_district_table
           \<and> map fst (need_columns m) = category_names
           \<and> list_all2 (\<lambda>raw scaled. \<exists>r out. raw = map Fin r \<and> scaled = map Fin out
                                           \<and> normalized_to r out)
                 (need_cols chop two_district_table) (map snd (need_columns m))"
    by blast
  from no_rounding rounding_chop h1 h2 a b show ?thesis by (intro conjI)
qed

text \<open>
  C1, as stated, at a table whose only district has population density 0: the largest
  density is 0, \<open>wash_need\<close> is 50 * (0 / 0) = NaN, the scaler keeps the NaN, and the
  water column has neither minimum 0 and maximum 100 nor the value 0.
\<close>

theorem build_need_matrix_zero_density:
  "build_need_matrix zero_density_table =
   Inr \<lparr>districts = [''Gorkha''],
        need_columns =
          [(''Emergency Shelter & Housing'', [Fin 0]),
           (''Water & Sanitation Recovery'', [NaN]),
           (''Emergency Food Distribution'', [Fin 0]),
           (''Emergency Logistics & Transportation'', [Fin 0]),
           (''Search Rescue & Evacuation'', [Fin 0]),
           (''Emergency Health Response'', [Fin 0]),
           (''Immediate Cash Assistance'', [Fin 0]),
           (''Emergency Communications'', [Fin 0]),
           (''Psychosocial First Aid'', [Fin 0]),
           (''Critical Infrastructure Restoration'', [Fin 0]),
           (''Agricultural Recovery'', [Fin 0])]\<rparr>"
  by (simp add: scaler_defs need_defs zero_density_table_def)

section \<open>Urgency\<close>

lemma np_sum_Fin: "np_sum (map Fin xs) = Fin (sum_list xs)"
  by (induction xs) auto

lemma np_mean_Fin: "xs \<noteq> [] \<Longrightarrow> np_mean (map Fin xs) = Fin (sum_list xs / real (length xs))"
  by (simp add: np_mean_def np_sum_Fin np_truediv_def)

lemma urgency_of_Fin: "ns \<noteq> [] \<Longrightarrow> urgency_of (map Fin ns) = Fin (mean_need_urgency ns)"
  by (simp add: urgency_of_def np_mean_Fin np_truediv_def mean_need_urgency_def)

lemma sum_list_bounds:
  fixes ns :: "real list"
  assumes "\<forall>n \<in> set ns. lo \<le> n \<and> n \<le> hi"
  shows "lo * real (length ns) \<le> sum_list ns \<and> sum_list ns \<le> hi * real (length ns)"
  using assms by (induction ns) (auto simp: algebra_simps)

lemma mean_need_urgency_range:
  assumes "ns \<noteq> []" and "\<forall>n \<in> set ns. 0 \<le> n \<and> n \<le> 100"
  shows "0 \<le> mean_need_urgency ns \<and> mean_need_urgency ns \<le> 1"
proof -
  have len: "0 < real (length ns)" using assms(1) by simp
  from sum_list_bounds[OF assms(2)]
  have "0 \<le> sum_list ns" "sum_list ns \<le> 100 * real (length ns)" by auto
  then show ?thesis
    using len by (simp add: mean_need_urgency_def field_simps)
qed

lemma sum_list_const:
  fixes ns :: "real list"
  shows "\<forall>n \<in> set ns. n = c \<Longrightarrow> sum_list ns = c * real (length ns)"
  by (induction ns) (auto simp: algebra_simps)

lemma mean_need_urgency_const:
  assumes "ns \<noteq> []" and "\<forall>n \<in> set ns. n = c"
  shows "mean_need_urgency ns = c / 100"
  using assms(1) sum_list_const[OF assms(2)] by (simp add: mean_need_urgency_def)

lemma has_text_iff: "has_text r cats \<longleftrightarrow> (\<exists>c \<in> set cats. c \<in> set (text_columns r))"
  by (simp add: has_text_def list_ex_iff)

lemma astype_float_Inr:
  "astype_float r cats = Inr v \<longleftrightarrow> \<not> has_text r cats \<and> v = restrict r cats"
  by (auto simp: astype_float_def)

lemma astype_float_numeric: "\<not> has_text r cats \<Longrightarrow> astype_float r cats = Inr (restrict r cats)"
  by (simp add: astype_float_def)

lemma astype_float_text:
  "has_text r cats \<Longrightarrow> astype_float r cats = Inl (ValueError ''could not convert string to float'')"
  by (simp add: astype_float_def)

lemma no_text_columns: "text_columns r = [] \<Longrightarrow> \<not> has_text r cats"
  by (simp add: has_text_iff)

lemma holds_str_numeric:
  assumes "\<forall>r \<in> set rs. text_columns r = []"
  shows "\<not> holds_str rs name cats"
proof -
  have "\<not> object_column rs c" for c
    using assms by (simp add: object_column_def list_ex_iff)
  then show ?thesis
    by (simp add: holds_str_def list_ex_iff split: list.splits)
qed

lemma score_pair_urgency:
  "score_pair cats ngo reg = Inr (Some p) \<Longrightarrow> pair_urgency p = urgency_of (restrict reg cats)"
  by (auto simp: score_pair_def Let_def astype_float_Inr split: sum.splits if_splits)

lemma loc_first_Inr:
  "loc_first rs name cats = Inr v \<Longrightarrow> \<exists>r \<in> set rs. fst r = name \<and> v = restrict r cats"
proof -
  assume a: "loc_first rs name cats = Inr v"
  then obtain r rest where f: "filter (\<lambda>r. fst r = name) rs = r # rest" and v: "v = restrict r cats"
    by (auto simp: loc_first_def split: list.splits)
  from f have "r \<in> set (filter (\<lambda>r. fst r = name) rs)" by simp
  then show ?thesis using v by auto
qed

lemma calculate_urgency:
  assumes "calculate_match_and_urgency needs ngos ngo_name region_name = Inr (m, u)"
  shows "\<exists>r \<in> set (rows needs). fst r = region_name
           \<and> u = urgency_of (restrict r (cats_of needs ngos))"
proof -
  from assms obtain reg_vec where
    "loc_first (rows needs) region_name (cats_of needs ngos) = Inr reg_vec"
    "u = urgency_of reg_vec"
    by (auto simp: calculate_match_and_urgency_def Let_def split: sum.splits if_splits)
  then show ?thesis using loc_first_Inr by blast
qed

lemma blend_range:
  assumes "\<forall>x \<in> set (percentages d). 0 \<le> x \<and> x \<le> 100"
  shows "0 \<le> urgency_generate_ngo_scores d \<and> urgency_generate_ngo_scores d \<le> 1"
  using assms unfolding percentages_def urgency_generate_ngo_scores_def
  by (simp add: field_simps)

text \<open>
  C3 (amended). In \<open>compute_fitness.py\<close>, \<open>predict.py\<close> and \<open>generate_all_scores.py\<close>
  the urgency of a pair is \<open>N.mean()/100\<close> over the district's cells in the shared
  columns. On a non-empty vector of finite cells that is the mean of the components
  divided by 100; it lies in [0,1] when they lie in [0,100], is 1 when all are 100 and 0
  when all are 0. \<open>generate_ngo_scores.py\<close> does not use it: its urgency is the weighted
  blend of six raw indicators, in [0,1] when they are percentages.
\<close>

theorem urgency_conventions:
  "(score_pair cats ngo reg = Inr (Some p) \<longrightarrow> pair_urgency p = urgency_of (restrict reg cats))
   \<and> (calculate_match_and_urgency needs ngos ngo_name region_name = Inr (m, u) \<longrightarrow>
        (\<exists>r \<in> set (rows needs). fst r = region_name
            \<and> u = urgency_of (restrict r (cats_of needs ngos))))
   \<and> (ns \<noteq> [] \<longrightarrow> urgency_of (map Fin ns) = Fin (mean_need_urgency ns))
   \<and> (ns \<noteq> [] \<and> (\<forall>n \<in> set ns. 0 \<le> n \<and> n \<le> 100) \<longrightarrow>
        0 \<le> mean_need_urgency ns \<and> mean_need_urgency ns \<le> 1)
   \<and> (ns \<noteq> [] \<and> (\<forall>n \<in> set ns. n = 100) \<longrightarrow> mean_need_urgency ns = 1)
   \<and> (ns \<noteq> [] \<and> (\<forall>n \<in> set ns. n = 0) \<longrightarrow> mean_need_urgency ns = 0)
   \<and> ((\<forall>x \<in> set (percentages d). 0 \<le> x \<and> x \<le> 100) \<longrightarrow>
        0 \<le> urgency_generate_ngo_scores d \<and> urgency_generate_ngo_scores d \<le> 1)"
  using score_pair_urgency calculate_urgency urgency_of_Fin mean_need_urgency_range
    mean_need_urgency_const[of ns 100] mean_need_urgency_const[of ns 0] blend_range
  by (intro conjI impI; simp)

lemma example_cats_eq: "cats_of needs_example ngos_example = example_cats"
  by (simp add: cats_of_def needs_example_def ngos_example_def example_cats_def)

lemma restrict_red_cross: "restrict red_cross example_cats = [Fin 1, Fin 0]"
  by (simp add: restrict_def cells_def red_cross_def example_cats_def)

lemma restrict_gorkha: "restrict gorkha example_cats = [Fin 0, Fin 100]"
  by (simp add: restrict_def cells_def gorkha_def example_cats_def)

lemma fst_examples: "fst red_cross = ''Red Cross''" "fst gorkha = ''Gorkha''"
  by (simp_all add: red_cross_def gorkha_def)

lemma numeric_examples:
  "text_columns red_cross = []" "text_columns gorkha = []" "text_columns lalitpur = []"
  "text_columns idle = []"
  by (simp_all add: text_columns_def red_cross_def gorkha_def lalitpur_def idle_def)

lemma astype_examples:
  "astype_float red_cross cats = Inr (restrict red_cross cats)"
  "astype_float gorkha cats = Inr (restrict gorkha cats)"
  "astype_float lalitpur cats = Inr (restrict lalitpur cats)"
  "astype_float idle cats = Inr (restrict idle cats)"
  by (simp_all add: astype_float_numeric no_text_columns numeric_examples)

lemma holds_str_examples:
  "\<not> holds_str (rows ngos_example) name cats"
  "\<not> holds_str (rows needs_example) name cats"
  "\<not> holds_str (rows needs_unrenamed) name cats"
  "\<not> holds_str (rows needs_even) name cats"
  "\<not> holds_str (rows ngos_with_idle) name cats"
  by (rule holds_str_numeric,
      simp add: ngos_example_def needs_example_def needs_unrenamed_def needs_even_def
        ngos_with_idle_def numeric_examples)+

lemma norms_example:
  "linalg_norm [Fin 1, Fin 0] = Fin 1" "linalg_norm [Fin 0, Fin 100] = Fin 100"
proof -
  have "sqrt 10000 = 100" by (rule real_sqrt_unique) simp_all
  then show "linalg_norm [Fin 1, Fin 0] = Fin 1" "linalg_norm [Fin 0, Fin 100] = Fin 100"
    by (simp_all add: linalg_norm_def)
qed

lemma cosine_example:
  "cosine_compute_fitness [Fin 1, Fin 0] [Fin 0, Fin 100] = Inr (Fin 0)"
  "cosine_predict [Fin 1, Fin 0] [Fin 0, Fin 100] = Inr (Fin 0)"
  by (simp_all add: cosine_compute_fitness_def cosine_predict_def norms_example np_dot_def
      np_truediv_def)

lemma urgency_example: "urgency_of [Fin 0, Fin 100] = Fin (1 / 2)"
  by (simp add: urgency_of_def np_mean_def np_truediv_def)

lemma label_example: "label_heuristic (Fin 0) (Fin (1 / 2)) = Fin (3 / 20)"
  by (simp add: label_heuristic_def)

lemma score_pair_example: "score_pair example_cats red_cross gorkha = Inr (Some example_pair)"
  by (simp add: score_pair_def Let_def astype_examples restrict_red_cross restrict_gorkha
      cosine_example urgency_example label_example np_isnan_def example_pair_def fst_examples)

lemma calculate_example:
  "calculate_match_and_urgency needs_example ngos_example ''Red Cross'' ''Gorkha''
   = Inr (Fin 0, Fin (1 / 2))"
proof -
  have "loc_first (rows ngos_example) ''Red Cross'' example_cats = Inr [Fin 1, Fin 0]"
    by (simp add: loc_first_def ngos_example_def fst_examples restrict_red_cross)
  moreover have "loc_first (rows needs_example) ''Gorkha'' example_cats = Inr [Fin 0, Fin 100]"
    by (simp add: loc_first_def needs_example_def fst_examples restrict_gorkha)
  ultimately show ?thesis
    by (simp add: calculate_match_and_urgency_def Let_def example_cats_eq cosine_example
        urgency_example holds_str_examples)
qed

text \<open>
  C3, as stated, at the district Sindhupalchok with every damage indicator at 100 and
  road accessibility 0, alone in its table: its need vector is all 0, so the mean
  convention gives urgency 0, while \<open>generate_ngo_scores.py\<close> computes 1 and writes
  100, outside [0,1].
\<close>

theorem urgency_blend_differs:
  "build_need_matrix [worst_hit] = Inr worst_hit_needs
   \<and> urgency_of (need_vector worst_hit_needs 0) = Fin 0
   \<and> urgency_generate_ngo_scores worst_hit = 1
   \<and> written_urgency worst_hit = 100"
proof -
  have "build_need_matrix [worst_hit] = Inr worst_hit_needs"
    by (simp add: scaler_defs need_defs worst_hit_def worst_hit_needs_def)
  moreover have "urgency_of (need_vector worst_hit_needs 0) = Fin 0"
    by (simp add: worst_hit_needs_def need_vector_def category_names_def urgency_of_def
        np_mean_def np_truediv_def)
  moreover have "urgency_generate_ngo_scores worst_hit = 1 \<and> written_urgency worst_hit = 100"
    by (simp add: written_urgency_def urgency_generate_ngo_scores_def worst_hit_def
        round2_def rint_def)
  ultimately show ?thesis by blast
qed

theorem urgency_conventions_witness:
  "score_pair example_cats red_cross gorkha = Inr (Some example_pair)
   \<and> pair_urgency example_pair = urgency_of (restrict gorkha example_cats)
   \<and> calculate_match_and_urgency needs_example ngos_example ''Red Cross'' ''Gorkha''
       = Inr (Fin 0, Fin (1 / 2))
   \<and> (\<exists>r \<in> set (rows needs_example). fst r = ''Gorkha''
          \<and> Fin (1 / 2) = urgency_of (restrict r (cats_of needs_example ngos_example)))
   \<and> urgency_of (map Fin [0, 100]) = Fin (mean_need_urgency [0, 100])
   \<and> 0 \<le> mean_need_urgency [0, 100] \<and> mean_need_urgency [0, 100] \<le> 1
   \<and> mean_need_urgency [100, 100] = 1
   \<and> mean_need_urgency [0, 0] = 0
   \<and> 0 \<le> urgency_generate_ngo_scores worst_hit \<and> urgency_generate_ngo_scores worst_hit \<le> 1"
proof -
  note a = urgency_conventions[of example_cats red_cross gorkha example_pair
      needs_example ngos_example "''Red Cross''" "''Gorkha''" "Fin 0" "Fin (1 / 2)"
      "[0, 100]" worst_hit]
  note b = urgency_conventions[of example_cats red_cross gorkha example_pair
      needs_example ngos_example "''Red Cross''" "''Gorkha''" "Fin 0" "Fin (1 / 2)"
      "[100, 100]" worst_hit]
  note c = urgency_conventions[of example_cats red_cross gorkha example_pair
      needs_example ngos_example "''Red Cross''" "''Gorkha''" "Fin 0" "Fin (1 / 2)"
      "[0, 0]" worst_hit]
  have pct: "\<forall>x \<in> set (percentages worst_hit). 0 \<le> x \<and> x \<le> 100"
    by (simp add: percentages_def worst_hit_def)
  have r1: "\<forall>n \<in> set [0, 100::real]. 0 \<le> n \<and> n \<le> 100" by simp
  have r2: "\<forall>n \<in> set [100, 100::real]. n = 100" by simp
  have r3: "\<forall>n \<in> set [0, 0::real]. n = 0" by simp
  show ?thesis
    using a b c score_pair_example calculate_example pct r1 r2 r3
    by (intro conjI) blast+
qed

section \<open>The label of a pair\<close>

lemma sum_squares_nonneg: "0 \<le> sum_list (map (\<lambda>x. x * x) (a :: real list))"
  by (induction a) auto




lemma map2_mul_Fin:
  "length a = length b \<Longrightarrow> map2 np_mul (map Fin a) (map Fin b) = map Fin (map2 (*) a b)"
  by (induction a b rule: list_induct2) auto

lemma np_dot_Fin:
  "length a = length b \<Longrightarrow> np_dot (map Fin a) (map Fin b) = Inr (Fin (dot_product a b))"
proof -
  assume len: "length a = length b"
  have "np_sum (map2 np_mul (map Fin a) (map Fin b)) = Fin (sum_list (map2 (*) a b))"
    by (simp only: map2_mul_Fin[OF len] np_sum_Fin)
  moreover have "length (map Fin a) = length (map Fin b)" using len by simp
  ultimately show ?thesis by (simp only: np_dot_def dot_product_def simp_thms if_False)
qed

lemma squares_Fin: "map (\<lambda>x. np_mul x x) (map Fin a) = map Fin (map (\<lambda>x. x * x) a)"
  by (induction a) auto

lemma linalg_norm_Fin: "linalg_norm (map Fin a) = Fin (euclidean_norm a)"
proof -
  have "\<not> sum_list (map (\<lambda>x. x * x) a) < 0"
    using sum_squares_nonneg[of a] by simp
  then have "np_sqrt (Fin (sum_list (map (\<lambda>x. x * x) a)))
             = Fin (sqrt (sum_list (map (\<lambda>x. x * x) a)))"
    by simp
  then show ?thesis
    by (simp only: linalg_norm_def squares_Fin np_sum_Fin euclidean_norm_def)
qed


lemma length_restrict: "length (restrict r cats) = length cats"
  by (simp add: restrict_def)


lemma compute_fitness_example: "compute_fitness needs_example ngos_example = Inr [example_pair]"
proof -
  have ne: "example_cats \<noteq> []" by (simp add: example_cats_def)
  have r: "rows ngos_example = [red_cross]" "rows needs_example = [gorkha]"
    by (simp_all add: ngos_example_def needs_example_def)
  show ?thesis
    by (simp add: compute_fitness_def Let_def example_cats_eq ne r score_pair_example
        astype_examples)
qed








section \<open>Lookups by name, and tables that share no column\<close>

lemma rows_examples:
  "rows ngos_example = [red_cross]" "rows needs_example = [gorkha]"
  "rows needs_unrenamed = [gorkha]"
  by (simp_all add: ngos_example_def needs_example_def needs_unrenamed_def)

lemma no_cats: "cats_of needs_unrenamed ngos_example = []"
  by (simp add: cats_of_def needs_unrenamed_def ngos_example_def)

lemma empty_vectors:
  "cosine_predict [] [] = Inr NaN" "urgency_of [] = NaN"
  by (simp_all add: cosine_predict_def np_dot_def linalg_norm_def np_truediv_def
      urgency_of_def np_mean_def)

lemma calculate_no_overlap:
  "calculate_match_and_urgency needs_unrenamed ngos_example ''Red Cross'' ''Gorkha''
   = Inr (NaN, NaN)"
  using holds_str_examples
  by (simp add: calculate_match_and_urgency_def Let_def no_cats loc_first_def rows_examples
      fst_examples restrict_def empty_vectors)

text \<open>
  C6. The claim asks that scoring fail when the two tables share no category column.
  \<open>compute_fitness.py\<close> does raise. \<open>predict.py\<close> and \<open>generate_all_scores.py\<close> have
  no such check: with a need table whose columns were not renamed, the Red Cross and
  Gorkha are scored on empty vectors, match and urgency are both NaN, the model is asked
  for a prediction on them, and the batch script saves the row.
\<close>

theorem no_overlap_is_not_refused:
  "calculate_match_and_urgency needs_unrenamed ngos_example ''Red Cross'' ''Gorkha''
     = Inr (NaN, NaN)
   \<and> predict_fitness M needs_unrenamed ngos_example ''Red Cross'' ''Gorkha'' = M NaN NaN
   \<and> saved_csv (generate_all_scores constant_model needs_unrenamed ngos_example)
       = Some [nan_pair]
   \<and> compute_fitness needs_unrenamed ngos_example
       = Inl (ValueError ''No overlapping categories - check CSV headers!'')"
proof -
  have "predict_fitness M needs_unrenamed ngos_example ''Red Cross'' ''Gorkha'' = M NaN NaN"
    by (simp add: predict_fitness_def calculate_no_overlap)
  moreover have "try_body constant_model needs_unrenamed ngos_example ''Red Cross'' ''Gorkha''
      = Inr nan_pair"
    by (simp add: try_body_def calculate_no_overlap constant_model_def nan_pair_def)
  then have "saved_csv (generate_all_scores constant_model needs_unrenamed ngos_example)
       = Some [nan_pair]"
    by (simp add: generate_all_scores_def Let_def rows_examples fst_examples)
  moreover have "compute_fitness needs_unrenamed ngos_example
       = Inl (ValueError ''No overlapping categories - check CSV headers!'')"
    by (simp add: compute_fitness_def Let_def no_cats)
  ultimately show ?thesis using calculate_no_overlap by blast
qed

lemma loc_first_unknown:
  "name \<notin> set (map fst rs) \<Longrightarrow> loc_first rs name cats = Inl IndexError"
proof -
  assume "name \<notin> set (map fst rs)"
  then have "filter (\<lambda>r. fst r = name) rs = []"
    by (auto simp: filter_empty_conv)
  then show ?thesis by (simp add: loc_first_def)
qed

lemma loc_first_known:
  "name \<in> set (map fst rs) \<Longrightarrow>
   \<exists>r \<in> set rs. fst r = name \<and> loc_first rs name cats = Inr (restrict r cats)"
proof -
  assume "name \<in> set (map fst rs)"
  then have "filter (\<lambda>r. fst r = name) rs \<noteq> []"
    by (auto simp: filter_empty_conv)
  then obtain r rest where f: "filter (\<lambda>r. fst r = name) rs = r # rest"
    by (cases "filter (\<lambda>r. fst r = name) rs") auto
  then have "r \<in> set (filter (\<lambda>r. fst r = name) rs)" by simp
  then have "r \<in> set rs" "fst r = name" by auto
  moreover have "loc_first rs name cats = Inr (restrict r cats)"
    by (simp add: loc_first_def f)
  ultimately show ?thesis by blast
qed

lemma cosine_predict_same_length:
  "length a = length b \<Longrightarrow> \<exists>m. cosine_predict a b = Inr m"
  by (simp add: cosine_predict_def np_dot_def)

lemma calculate_known:
  assumes "ngo_name \<in> set (map fst (rows ngos))"
    and "region_name \<in> set (map fst (rows needs))"
    and "\<not> holds_str (rows ngos) ngo_name (cats_of needs ngos)"
    and "\<not> holds_str (rows needs) region_name (cats_of needs ngos)"
  shows "\<exists>v. calculate_match_and_urgency needs ngos ngo_name region_name = Inr v"
proof -
  let ?cats = "cats_of needs ngos"
  from loc_first_known[OF assms(1)] obtain r1 where
    r1: "loc_first (rows ngos) ngo_name ?cats = Inr (restrict r1 ?cats)" by blast
  from loc_first_known[OF assms(2)] obtain r2 where
    r2: "loc_first (rows needs) region_name ?cats = Inr (restrict r2 ?cats)" by blast
  have "length (restrict r1 ?cats) = length (restrict r2 ?cats)"
    by (simp add: length_restrict)
  from cosine_predict_same_length[OF this] obtain m where
    "cosine_predict (restrict r1 ?cats) (restrict r2 ?cats) = Inr m" by blast
  then show ?thesis
    using assms(3,4) by (simp add: calculate_match_and_urgency_def Let_def r1 r2)
qed

lemma calculate_text:
  assumes "ngo_name \<in> set (map fst (rows ngos))"
    and "region_name \<in> set (map fst (rows needs))"
    and "holds_str (rows ngos) ngo_name (cats_of needs ngos)
         \<or> holds_str (rows needs) region_name (cats_of needs ngos)"
  shows "calculate_match_and_urgency needs ngos ngo_name region_name = Inl TypeError"
proof -
  let ?cats = "cats_of needs ngos"
  from loc_first_known[OF assms(1)] obtain r1 where
    r1: "loc_first (rows ngos) ngo_name ?cats = Inr (restrict r1 ?cats)" by blast
  from loc_first_known[OF assms(2)] obtain r2 where
    r2: "loc_first (rows needs) region_name ?cats = Inr (restrict r2 ?cats)" by blast
  show ?thesis
    using assms(3) by (simp add: calculate_match_and_urgency_def Let_def r1 r2)
qed

lemma calculate_unknown:
  assumes "\<not> (ngo_name \<in> set (map fst (rows ngos))
              \<and> region_name \<in> set (map fst (rows needs)))"
  shows "calculate_match_and_urgency needs ngos ngo_name region_name = Inl IndexError"
proof (cases "ngo_name \<in> set (map fst (rows ngos))")
  case False
  then show ?thesis
    by (simp add: calculate_match_and_urgency_def Let_def loc_first_unknown)
next
  case True
  with assms have "region_name \<notin> set (map fst (rows needs))" by simp
  then have "loc_first (rows needs) region_name (cats_of needs ngos) = Inl IndexError"
    by (rule loc_first_unknown)
  moreover from loc_first_known[OF True] obtain r where
    "loc_first (rows ngos) ngo_name (cats_of needs ngos) = Inr (restrict r (cats_of needs ngos))"
    by blast
  ultimately show ?thesis
    by (simp add: calculate_match_and_urgency_def Let_def)
qed

lemma predict_fitness_unknown:
  assumes "\<not> (ngo_name \<in> set (map fst (rows ngos))
              \<and> region_name \<in> set (map fst (rows needs)))"
  shows "predict_fitness M needs ngos ngo_name region_name = Inl IndexError"
  by (simp add: predict_fitness_def calculate_unknown[OF assms])

lemma main_three_args:
  "snd (main M needs ngos [prog, ngo_name, district_name]) =
     (if ngo_name \<in> set (map fst (rows ngos)) \<and> district_name \<in> set (map fst (rows needs))
      then map_sum id (\<lambda>_. ()) (predict_fitness M needs ngos ngo_name district_name)
      else Inl (SystemExit 1))"
  by (simp add: main_def Let_def split: sum.splits)

text \<open>
  C9. The claim asks that names be matched without regard to letter case and to blanks
  around them, and the dashboard and the map scripts do strip and lower-case the district
  names before they compare them. \<open>predict.py\<close> and \<open>generate_all_scores.py\<close> compare
  with \<open>==\<close>: at the tables holding the Red Cross and Gorkha the exact names are scored,
  while \<open>red cross\<close> in lower case and \<open>Gorkha\<close> behind a leading blank raise IndexError,
  and the command line exits with status 1.
\<close>

theorem case_and_spaces_matter:
  "predict_fitness constant_model needs_example ngos_example ''Red Cross'' ''Gorkha'' = Inr 42
   \<and> predict_fitness constant_model needs_example ngos_example ''red cross'' ''Gorkha''
       = Inl IndexError
   \<and> predict_fitness constant_model needs_example ngos_example ''Red Cross'' '' Gorkha''
       = Inl IndexError
   \<and> snd (main constant_model needs_example ngos_example [''predict.py'', ''red cross'', ''Gorkha''])
       = Inl (SystemExit 1)
   \<and> snd (main constant_model needs_example ngos_example [''predict.py'', ''Red Cross'', ''Gorkha''])
       = Inr ()"
proof -
  have ok: "predict_fitness constant_model needs_example ngos_example ''Red Cross'' ''Gorkha''
      = Inr 42"
    by (simp add: predict_fitness_def calculate_example constant_model_def)
  have a: "predict_fitness constant_model needs_example ngos_example ''red cross'' ''Gorkha''
      = Inl IndexError"
    by (rule predict_fitness_unknown) (simp add: rows_examples fst_examples)
  have b: "predict_fitness constant_model needs_example ngos_example ''Red Cross'' '' Gorkha''
      = Inl IndexError"
    by (rule predict_fitness_unknown) (simp add: rows_examples fst_examples)
  show ?thesis
    using ok a b by (simp add: main_three_args rows_examples fst_examples)
qed

text \<open>
  C5. The claim asks for one structured error for an unknown name. No path returns a
  fitness value for one, but only the command line with two arguments reports it:
  \<open>predict_fitness\<close> called with the unknown NGO \<open>Nobody\<close> raises IndexError, and so
  does the command line without arguments when its default district, Sindhupalchok, is
  not in the need table.
\<close>

theorem unknown_name_raises_IndexError:
  "predict_fitness constant_model needs_example ngos_example ''Nobody'' ''Gorkha''
     = Inl IndexError
   \<and> main constant_model needs_example ngos_example [''predict.py''] = ([], Inl IndexError)
   \<and> snd (main constant_model needs_example ngos_example [''predict.py'', ''Nobody'', ''Gorkha''])
       = Inl (SystemExit 1)"
proof -
  have a: "predict_fitness constant_model needs_example ngos_example ''Nobody'' ''Gorkha''
      = Inl IndexError"
    by (rule predict_fitness_unknown) (simp add: rows_examples fst_examples)
  have b: "predict_fitness constant_model needs_example ngos_example ''Red Cross''
      ''Sindhupalchok'' = Inl IndexError"
    by (rule predict_fitness_unknown) (simp add: rows_examples fst_examples)
  show ?thesis
    using a b by (simp add: main_three_args rows_examples fst_examples) (simp add: main_def)
qed

section \<open>Urgency depends on the capability table\<close>

















section \<open>Saving the model is not atomic\<close>

lemma flush_chunk_path:
  "fs path = Some pre \<Longrightarrow> flush_chunk path chunk fs path = Some (pre @ chunk)"
  by (simp add: flush_chunk_def)

lemma flush_chunk_other: "q \<noteq> path \<Longrightarrow> flush_chunk path chunk fs q = fs q"
  by (simp add: flush_chunk_def)

lemma write_trace_states:
  assumes "fs path = Some pre" and "s \<in> set (write_trace path chunks fs)"
  shows "(\<exists>k \<le> length chunks. s path = Some (pre @ concat (take k chunks)))
         \<and> (\<forall>q. q \<noteq> path \<longrightarrow> s q = fs q)"
  using assms
proof (induction chunks arbitrary: fs pre)
  case Nil
  then show ?case by simp
next
  case (Cons chunk chunks)
  let ?fs' = "flush_chunk path chunk fs"
  have p': "?fs' path = Some (pre @ chunk)" using Cons.prems(1) by (simp add: flush_chunk_def)
  from Cons.prems(2) consider "s = ?fs'" | "s \<in> set (write_trace path chunks ?fs')"
    by (auto simp: Let_def)
  then show ?case
  proof cases
    case 1
    have "s path = Some (pre @ concat (take 1 (chunk # chunks)))" using 1 p' by simp
    moreover have "(1::nat) \<le> length (chunk # chunks)" by simp
    ultimately have "\<exists>k \<le> length (chunk # chunks). s path = Some (pre @ concat (take k (chunk # chunks)))"
      by blast
    then show ?thesis using 1 flush_chunk_other by simp
  next
    case 2
    from Cons.IH[of ?fs' "pre @ chunk", OF p' 2] obtain k where
      k: "k \<le> length chunks" "s path = Some ((pre @ chunk) @ concat (take k chunks))"
      and o: "\<forall>q. q \<noteq> path \<longrightarrow> s q = ?fs' q" by blast
    have "s path = Some (pre @ concat (take (Suc k) (chunk # chunks)))" using k(2) by simp
    moreover have "Suc k \<le> length (chunk # chunks)" using k(1) by simp
    ultimately have "\<exists>k \<le> length (chunk # chunks). s path = Some (pre @ concat (take k (chunk # chunks)))"
      by blast
    then show ?thesis using o flush_chunk_other by simp
  qed
qed

lemma write_trace_last:
  "fs path = Some pre \<Longrightarrow>
   last (fs # write_trace path chunks fs) path = Some (pre @ concat chunks)"
proof (induction chunks arbitrary: fs pre)
  case Nil
  then show ?case by simp
next
  case (Cons chunk chunks)
  let ?fs' = "flush_chunk path chunk fs"
  have p': "?fs' path = Some (pre @ chunk)" using Cons.prems by (simp add: flush_chunk_def)
  have "last (fs # write_trace path (chunk # chunks) fs)
        = last (?fs' # write_trace path chunks ?fs')"
    by (simp add: Let_def)
  then show ?case using Cons.IH[of ?fs' "pre @ chunk", OF p'] by simp
qed

text \<open>
  C8 (amended). Training overwrites the model file in place. The first state after the
  call starts is the file truncated to nothing, where a reader gets EOFError whatever
  the file held before; every later state holds the chunks flushed so far; the last
  holds the whole new pickle; no other file changes.
\<close>

theorem save_model_overwrites_in_place:
  "hd (save_model path chunks fs) = fs
   \<and> save_model path chunks fs ! 1 = open_wb path fs
   \<and> (save_model path chunks fs ! 1) path = Some []
   \<and> pickle_load loads (save_model path chunks fs ! 1) path = Inl EOFError
   \<and> last (save_model path chunks fs) path = Some (concat chunks)
   \<and> (\<forall>s \<in> set (tl (save_model path chunks fs)).
         (\<exists>k \<le> length chunks. s path = Some (concat (take k chunks)))
         \<and> (\<forall>q. q \<noteq> path \<longrightarrow> s q = fs q))"
proof -
  let ?fs0 = "open_wb path fs"
  have p0: "?fs0 path = Some []" by (simp add: open_wb_def)
  have o0: "\<forall>q. q \<noteq> path \<longrightarrow> ?fs0 q = fs q" by (simp add: open_wb_def)
  have a: "hd (save_model path chunks fs) = fs" by (simp add: save_model_def)
  have b: "save_model path chunks fs ! 1 = ?fs0" by (simp add: save_model_def)
  have c: "pickle_load loads ?fs0 path = Inl EOFError" by (simp add: pickle_load_def p0)
  have d: "last (save_model path chunks fs) path = Some (concat chunks)"
    using write_trace_last[of ?fs0 path "[]" chunks, OF p0] by (simp add: save_model_def)
  have e: "(\<exists>k \<le> length chunks. s path = Some (concat (take k chunks)))
         \<and> (\<forall>q. q \<noteq> path \<longrightarrow> s q = fs q)"
    if "s \<in> set (tl (save_model path chunks fs))" for s
  proof -
    from that consider "s = ?fs0" | "s \<in> set (write_trace path chunks ?fs0)"
      by (auto simp: save_model_def)
    then show ?thesis
    proof cases
      case 1
      have "s path = Some (concat (take 0 chunks))" using 1 p0 by simp
      then have "\<exists>k \<le> length chunks. s path = Some (concat (take k chunks))" by blast
      then show ?thesis using 1 o0 by simp
    next
      case 2
      from write_trace_states[of ?fs0 path "[]" s chunks, OF p0 2] o0 show ?thesis by simp
    qed
  qed
  show ?thesis using a b c d e p0 by (simp only: simp_thms) blast
qed

text \<open>
  C8, as stated, at a model file holding the bytes 1, 2, 3, loadable before the call,
  and a new pickle flushed as 4, 5 and then 6: after the open the file is empty and
  cannot be loaded, then it holds only 4, 5, and the new model is complete at the end.
\<close>

theorem old_model_is_lost_during_save:
  "pickle_load Inr old_disk model_path = Inr [1, 2, 3]
   \<and> pickle_load Inr (save_model model_path [[4, 5], [6]] old_disk ! 1) model_path
       = Inl EOFError
   \<and> (save_model model_path [[4, 5], [6]] old_disk ! 2) model_path = Some [4, 5]
   \<and> last (save_model model_path [[4, 5], [6]] old_disk) model_path = Some [4, 5, 6]"
  by (simp add: pickle_load_def old_disk_def save_model_def open_wb_def flush_chunk_def
      Let_def numeral_2_eq_2)


theorem save_model_overwrites_in_place_witness:
  "save_model model_path [[4, 5], [6]] old_disk ! 2
     \<in> set (tl (save_model model_path [[4, 5], [6]] old_disk))
   \<and> ''outputs/ngo_region_scores.csv'' \<noteq> model_path
   \<and> hd (save_model model_path [[4, 5], [6]] old_disk) = old_disk
   \<and> save_model model_path [[4, 5], [6]] old_disk ! 1 = open_wb model_path old_disk
   \<and> (save_model model_path [[4, 5], [6]] old_disk ! 1) model_path = Some []
   \<and> pickle_load Inr (save_model model_path [[4, 5], [6]] old_disk ! 1) model_path
       = (Inl EOFError :: error + bytes)
   \<and> last (save_model model_path [[4, 5], [6]] old_disk) model_path
       = Some (concat [[4, 5], [6]])
   \<and> (\<exists>k \<le> length [[4, 5], [6 :: nat]].
         (save_model model_path [[4, 5], [6]] old_disk ! 2) model_path
           = Some (concat (take k [[4, 5], [6]])))
   \<and> (save_model model_path [[4, 5], [6]] old_disk ! 2) ''outputs/ngo_region_scores.csv''
       = old_disk ''outputs/ngo_region_scores.csv''"
proof -
  have h1: "save_model model_path [[4, 5], [6]] old_disk ! 2
     \<in> set (tl (save_model model_path [[4, 5], [6]] old_disk))"
    by (simp add: save_model_def Let_def numeral_2_eq_2)
  have h2: "''outputs/ngo_region_scores.csv'' \<noteq> model_path"
    by (simp add: model_path_def)
  note t = save_model_overwrites_in_place[of model_path "[[4, 5], [6]]" old_disk Inr]
  show ?thesis
    using t h1 h2 by (intro conjI) blast+
qed

section \<open>What the batch scripts keep and leave out\<close>

lemma cosine_compute_fitness_guarded:
  "length a = length b \<Longrightarrow> cosine_compute_fitness a b = Inr (guarded_match a b)"
  by (simp add: cosine_compute_fitness_def guarded_match_def np_dot_def)

lemma score_pair_numeric:
  assumes "\<not> has_text ngo cats" and "\<not> has_text reg cats"
  shows "score_pair cats ngo reg = Inr (label_row cats ngo reg)"
proof -
  have "length (restrict ngo cats) = length (restrict reg cats)"
    by (simp add: length_restrict)
  then have "cosine_compute_fitness (restrict ngo cats) (restrict reg cats)
      = Inr (guarded_match (restrict ngo cats) (restrict reg cats))"
    by (rule cosine_compute_fitness_guarded)
  then show ?thesis
    using assms by (simp add: score_pair_def label_row_def Let_def astype_float_numeric)
qed

lemma score_pair_text:
  assumes "\<not> has_text ngo cats" and "has_text reg cats"
  shows "score_pair cats ngo reg = Inl (ValueError ''could not convert string to float'')"
  using assms by (simp add: score_pair_def astype_float_numeric astype_float_text)

lemma map_filter_Cons:
  "List.map_filter f (x # xs) = (case f x of None \<Rightarrow> List.map_filter f xs
                                  | Some y \<Rightarrow> y # List.map_filter f xs)"
  by (simp add: List.map_filter_def split: option.splits)

lemma map_filter_app: "List.map_filter f (xs @ ys) = List.map_filter f xs @ List.map_filter f ys"
  by (simp add: List.map_filter_def)

lemma regions_loop_numeric:
  assumes "\<not> has_text ngo cats" and "\<forall>reg \<in> set regs. \<not> has_text reg cats"
  shows "regions_loop cats ngo regs pairs
         = Inr (pairs @ List.map_filter (label_row cats ngo) regs)"
  using assms(2)
proof (induction regs arbitrary: pairs)
  case Nil
  show ?case by (simp add: List.map_filter_def)
next
  case (Cons reg regs)
  then have r: "\<not> has_text reg cats" and rs: "\<forall>reg \<in> set regs. \<not> has_text reg cats"
    by simp_all
  show ?case
    by (cases "label_row cats ngo reg")
      (simp_all add: score_pair_numeric[OF assms(1) r] Cons.IH[OF rs] map_filter_Cons)
qed

lemma regions_loop_text:
  assumes "\<not> has_text ngo cats" and "\<exists>reg \<in> set regs. has_text reg cats"
  shows "regions_loop cats ngo regs pairs
         = Inl (ValueError ''could not convert string to float'')"
  using assms(2)
proof (induction regs arbitrary: pairs)
  case Nil
  then show ?case by simp
next
  case (Cons reg regs)
  show ?case
  proof (cases "has_text reg cats")
    case True
    then show ?thesis by (simp add: score_pair_text[OF assms(1)])
  next
    case False
    with Cons.prems have "\<exists>reg \<in> set regs. has_text reg cats" by simp
    then have "\<And>pairs. regions_loop cats ngo regs pairs
        = Inl (ValueError ''could not convert string to float'')"
      by (rule Cons.IH)
    then show ?thesis
      by (cases "label_row cats ngo reg") (simp_all add: score_pair_numeric[OF assms(1) False])
  qed
qed

lemma ngos_loop_eq:
  "ngos_loop cats ngos regs pairs =
     (if (\<exists>ngo \<in> set ngos. has_text ngo cats)
         \<or> ngos \<noteq> [] \<and> (\<exists>reg \<in> set regs. has_text reg cats)
      then Inl (ValueError ''could not convert string to float'')
      else Inr (pairs @ concat (map (\<lambda>ngo. List.map_filter (label_row cats ngo) regs) ngos)))"
proof (induction ngos arbitrary: pairs)
  case Nil
  show ?case by simp
next
  case (Cons ngo ngos)
  show ?case
  proof (cases "has_text ngo cats")
    case True
    then show ?thesis by (simp add: astype_float_text)
  next
    case False
    note ngo = this
    show ?thesis
    proof (cases "\<exists>reg \<in> set regs. has_text reg cats")
      case True
      then show ?thesis
        using ngo by (simp add: astype_float_numeric regions_loop_text[OF ngo True])
    next
      case False
      then have "\<forall>reg \<in> set regs. \<not> has_text reg cats" by simp
      from regions_loop_numeric[OF ngo this] show ?thesis
        using ngo False by (simp add: astype_float_numeric Cons.IH)
    qed
  qed
qed

lemma compute_fitness_eq:
  "compute_fitness needs ngos =
     (if cats_of needs ngos = []
      then Inl (ValueError ''No overlapping categories - check CSV headers!'')
      else if unreadable needs ngos
      then Inl (ValueError ''could not convert string to float'')
      else Inr (expected_labels needs ngos))"
  by (auto simp: compute_fitness_def Let_def ngos_loop_eq expected_labels_def unreadable_def
      list_ex_iff)

lemma label_row_None:
  "(label_row cats ngo reg = None)
   = np_isnan (label_heuristic (guarded_match (restrict ngo cats) (restrict reg cats))
                 (urgency_of (restrict reg cats)))"
  by (simp add: label_row_def Let_def)

lemma label_row_zero_norm:
  assumes "cats \<noteq> []" and "linalg_norm (restrict ngo cats) = Fin 0"
    and "restrict reg cats = map Fin ns"
  shows "label_row cats ngo reg =
           Some \<lparr>pair_NGO = fst ngo, pair_district = fst reg, pair_match = Fin 0,
                 pair_urgency = Fin (mean_need_urgency ns),
                 pair_fitness_score = Fin (3 / 10 * mean_need_urgency ns)\<rparr>"
proof -
  have "length ns = length cats"
    using length_restrict[of reg cats] assms(3) by simp
  then have "ns \<noteq> []" using assms(1) by auto
  then have "urgency_of (map Fin ns) = Fin (mean_need_urgency ns)"
    by (rule urgency_of_Fin)
  then show ?thesis
    using assms(2,3)
    by (simp add: label_row_def Let_def guarded_match_def label_heuristic_def np_isnan_def)
qed

lemma calculate_error:
  "calculate_match_and_urgency needs ngos n d = Inl e \<Longrightarrow> e = IndexError \<or> e = TypeError"
proof -
  assume a: "calculate_match_and_urgency needs ngos n d = Inl e"
  show ?thesis
  proof (cases "n \<in> set (map fst (rows ngos)) \<and> d \<in> set (map fst (rows needs))")
    case True
    show ?thesis
    proof (cases "holds_str (rows ngos) n (cats_of needs ngos)
                  \<or> holds_str (rows needs) d (cats_of needs ngos)")
      case True
      from calculate_text[OF _ _ this] \<open>n \<in> set (map fst (rows ngos))
          \<and> d \<in> set (map fst (rows needs))\<close> a
      show ?thesis by simp
    next
      case False
      from calculate_known[of n ngos d needs] True False a show ?thesis by auto
    qed
  next
    case False
    from calculate_unknown[OF False] a show ?thesis by simp
  qed
qed

lemma try_body_error:
  assumes M: "raises_only_exceptions M"
    and e: "try_body M needs ngos n d = Inl e"
  shows "is_Exception e"
proof (cases "calculate_match_and_urgency needs ngos n d")
  case (Inl e')
  then have "e = e'" using e by (simp add: try_body_def)
  moreover have "e' = IndexError \<or> e' = TypeError" using Inl by (rule calculate_error)
  ultimately show ?thesis by (auto simp: is_Exception_def)
next
  case (Inr mu)
  obtain m u where mu: "mu = (m, u)" by (cases mu)
  with Inr e have "M m u = Inl e"
    by (simp add: try_body_def split: sum.splits)
  with M show ?thesis unfolding raises_only_exceptions_def by blast
qed

lemma try_body_text:
  assumes "n \<in> set (map fst (rows ngos))" and "d \<in> set (map fst (rows needs))"
    and "holds_str (rows ngos) n (cats_of needs ngos)
         \<or> holds_str (rows needs) d (cats_of needs ngos)"
  shows "try_body M needs ngos n d = Inl TypeError"
  by (simp add: try_body_def calculate_text[OF assms])

lemma kept_Cons:
  "kept ((n, d, Inr p) # os) = p # kept os" "kept ((n, d, Inl e) # os) = kept os"
  by (simp_all add: kept_def map_filter_Cons)

lemma swallowed_Cons:
  "swallowed ((n, d, Inr p) # os) = swallowed os"
  "swallowed ((n, d, Inl e) # os) = (n, d, e) # swallowed os"
  by (simp_all add: swallowed_def map_filter_Cons)

lemma kept_app: "kept (xs @ ys) = kept xs @ kept ys"
  by (simp add: kept_def map_filter_app)

lemma swallowed_app: "swallowed (xs @ ys) = swallowed xs @ swallowed ys"
  by (simp add: swallowed_def map_filter_app)

lemma kept_Nil: "kept [] = []" and swallowed_Nil: "swallowed [] = []"
  by (simp_all add: kept_def swallowed_def List.map_filter_def)

lemma districts_loop_eq:
  assumes M: "raises_only_exceptions M"
  shows "districts_loop M needs ngos ngo ds (results, errs) =
         Inr (results @ kept (map (\<lambda>d. (ngo, d, try_body M needs ngos ngo d)) ds),
              errs @ swallowed (map (\<lambda>d. (ngo, d, try_body M needs ngos ngo d)) ds))"
proof (induction ds arbitrary: results errs)
  case Nil
  show ?case by (simp add: kept_Nil swallowed_Nil)
next
  case (Cons d ds)
  show ?case
  proof (cases "try_body M needs ngos ngo d")
    case (Inl e)
    then have "is_Exception e" using try_body_error[OF M] by blast
    then show ?thesis using Inl Cons.IH by (simp add: kept_Cons swallowed_Cons)
  next
    case (Inr p)
    then show ?thesis using Cons.IH by (simp add: kept_Cons swallowed_Cons)
  qed
qed

lemma names_loop_eq:
  assumes M: "raises_only_exceptions M"
  shows "names_loop M needs ngos names ds (results, errs) =
         Inr (results @ kept (outcomes M needs ngos names ds),
              errs @ swallowed (outcomes M needs ngos names ds))"
proof (induction names arbitrary: results errs)
  case Nil
  show ?case by (simp add: outcomes_def kept_Nil swallowed_Nil)
next
  case (Cons n names)
  show ?case
    using Cons.IH
    by (simp add: districts_loop_eq[OF M] outcomes_def kept_app swallowed_app)
qed

lemma generate_all_scores_eq:
  assumes M: "raises_only_exceptions M"
  shows "generate_all_scores M needs ngos =
           (let os = outcomes M needs ngos (sort (remdups (map fst (rows ngos))))
                       (sort (remdups (map fst (rows needs))))
            in \<lparr>saved_csv = Some (kept os), printed_errors = swallowed os,
                returned = (if kept os = [] then Inl (KeyError ''match'')
                            else Inr (kept os))\<rparr>)"
  by (simp add: generate_all_scores_def Let_def names_loop_eq[OF M])

text \<open>
  C7 (amended). The two batch scripts differ. \<open>compute_fitness.py\<close> catches nothing:
  over tables that share a column, text that is not a number in a shared column of a row
  the loops reach makes the conversion to float raise ValueError, which ends the run
  with nothing saved; otherwise the run returns the row of every pair except those
  whose score is NaN, and a pair with a zero-norm capability vector and finite needs is
  scored with match 0 and kept. \<open>generate_all_scores.py\<close> catches every error of class
  \<open>Exception\<close> that the body of its loop raises for a pair, whatever its kind, and the
  regressor is taken to raise no other: the message is printed,
  that pair's row is left out, the loop goes on and the other rows are saved; the run
  only fails afterwards, with a KeyError, when no row at all was kept. A pair whose
  selected cells hold a string raises TypeError there and is left out in this way.
\<close>

theorem batch_error_policies:
  assumes M: "raises_only_exceptions M"
  shows "compute_fitness needs ngos =
           (if cats_of needs ngos = []
            then Inl (ValueError ''No overlapping categories - check CSV headers!'')
            else if unreadable needs ngos
            then Inl (ValueError ''could not convert string to float'')
            else Inr (expected_labels needs ngos))
         \<and> (label_row cats ngo reg = None)
             = np_isnan (label_heuristic (guarded_match (restrict ngo cats) (restrict reg cats))
                           (urgency_of (restrict reg cats)))
         \<and> (cats \<noteq> [] \<and> linalg_norm (restrict ngo cats) = Fin 0
              \<and> restrict reg cats = map Fin ns \<longrightarrow>
              label_row cats ngo reg =
                Some \<lparr>pair_NGO = fst ngo, pair_district = fst reg, pair_match = Fin 0,
                      pair_urgency = Fin (mean_need_urgency ns),
                      pair_fitness_score = Fin (3 / 10 * mean_need_urgency ns)\<rparr>)
         \<and> generate_all_scores M needs ngos =
             (let os = outcomes M needs ngos (sort (remdups (map fst (rows ngos))))
                         (sort (remdups (map fst (rows needs))))
              in \<lparr>saved_csv = Some (kept os), printed_errors = swallowed os,
                  returned = (if kept os = [] then Inl (KeyError ''match'')
                              else Inr (kept os))\<rparr>)
         \<and> (n \<in> set (map fst (rows ngos)) \<and> d \<in> set (map fst (rows needs))
              \<and> (holds_str (rows ngos) n (cats_of needs ngos)
                  \<or> holds_str (rows needs) d (cats_of needs ngos)) \<longrightarrow>
              try_body M needs ngos n d = Inl TypeError)"
  using compute_fitness_eq[of needs ngos] label_row_None[of cats ngo reg]
    label_row_zero_norm[of cats ngo reg ns] generate_all_scores_eq[OF M, of needs ngos]
    try_body_text[of n ngos d needs M]
  by (intro conjI impI; blast)

lemma sorted_names:
  "sort (remdups [''Red Cross'', ''Local Aid'']) = [''Local Aid'', ''Red Cross'']"
  "sort (remdups [''Gorkha'']) = [''Gorkha'']"
  by code_simp+

lemma rows_ngos_text: "rows ngos_text = [red_cross_gap, local_aid]"
  by (simp add: ngos_text_def)

lemma fst_text: "fst red_cross_gap = ''Red Cross''" "fst local_aid = ''Local Aid''"
  by (simp_all add: red_cross_gap_def local_aid_def)

lemma cats_text: "cats_of needs_example ngos_text = example_cats"
  by (simp add: cats_of_def needs_example_def ngos_text_def example_cats_def)

lemma text_columns_text:
  "text_columns red_cross_gap = []" "text_columns local_aid = [''Emergency Food Distribution'']"
  by (simp_all add: text_columns_def red_cross_gap_def local_aid_def)

lemma restrict_gap: "restrict red_cross_gap example_cats = [NaN, Fin 1]"
  by (simp add: restrict_def cells_def red_cross_gap_def example_cats_def)

lemma empty_cell: "cells red_cross_gap ''Emergency Food Distribution'' = NaN"
  by (simp add: cells_def red_cross_gap_def)

lemma holds_str_text:
  "\<not> holds_str (rows ngos_text) ''Red Cross'' example_cats"
  "holds_str (rows ngos_text) ''Local Aid'' example_cats"
  by (simp_all add: holds_str_def object_column_def rows_ngos_text fst_text text_columns_text
      example_cats_def empty_cell np_isnan_def)

lemma cosine_gap: "cosine_predict [NaN, Fin 1] [Fin 0, Fin 100] = Inr NaN"
  by (simp add: cosine_predict_def np_dot_def)

lemma try_body_gap:
  "try_body constant_model needs_example ngos_text ''Red Cross'' ''Gorkha'' = Inr gap_pair"
proof -
  have "loc_first (rows ngos_text) ''Red Cross'' example_cats = Inr [NaN, Fin 1]"
    by (simp add: loc_first_def rows_ngos_text fst_text restrict_gap)
  moreover have "loc_first (rows needs_example) ''Gorkha'' example_cats = Inr [Fin 0, Fin 100]"
    by (simp add: loc_first_def rows_examples fst_examples restrict_gorkha)
  ultimately show ?thesis
    by (simp add: try_body_def calculate_match_and_urgency_def Let_def cats_text
        holds_str_text holds_str_examples cosine_gap urgency_example constant_model_def
        gap_pair_def)
qed

lemma try_body_local_aid:
  "try_body constant_model needs_example ngos_text ''Local Aid'' ''Gorkha'' = Inl TypeError"
proof (rule try_body_text)
  show "''Local Aid'' \<in> set (map fst (rows ngos_text))"
    by (simp add: rows_ngos_text fst_text)
  show "''Gorkha'' \<in> set (map fst (rows needs_example))"
    by (simp add: rows_examples fst_examples)
  show "holds_str (rows ngos_text) ''Local Aid'' (cats_of needs_example ngos_text)
        \<or> holds_str (rows needs_example) ''Gorkha'' (cats_of needs_example ngos_text)"
    by (simp only: cats_text holds_str_text simp_thms)
qed

lemma unreadable_text: "unreadable needs_example ngos_text"
  by (simp add: unreadable_def cats_text rows_ngos_text has_text_def text_columns_text
      example_cats_def)

lemma constant_model_raises_only_exceptions: "raises_only_exceptions constant_model"
  by (simp add: raises_only_exceptions_def constant_model_def)

text \<open>
  C7, as stated, at a capability table in which the food cell of the Red Cross is empty
  and that of Local Aid reads \<open>high\<close>, both with capability 1 for water, and at Gorkha
  (need 0 for food, 100 for water): in \<open>generate_all_scores.py\<close> the product of that
  string and a need raises TypeError for Local Aid, the handler prints it and goes on,
  and the run returns normally with the row of the Red Cross saved and that of Local Aid
  left out. On the same tables \<open>compute_fitness.py\<close> stops with ValueError.
\<close>

theorem exception_is_swallowed:
  "generate_all_scores constant_model needs_example ngos_text =
     \<lparr>saved_csv = Some [gap_pair],
      printed_errors = [(''Local Aid'', ''Gorkha'', TypeError)],
      returned = Inr [gap_pair]\<rparr>
   \<and> compute_fitness needs_example ngos_text
       = Inl (ValueError ''could not convert string to float'')"
proof -
  have "generate_all_scores constant_model needs_example ngos_text =
     \<lparr>saved_csv = Some [gap_pair],
      printed_errors = [(''Local Aid'', ''Gorkha'', TypeError)],
      returned = Inr [gap_pair]\<rparr>"
    by (simp add: generate_all_scores_def Let_def rows_ngos_text rows_examples
        fst_examples fst_text sorted_names try_body_gap try_body_local_aid is_Exception_def)
  moreover have "compute_fitness needs_example ngos_text
       = Inl (ValueError ''could not convert string to float'')"
    by (simp add: compute_fitness_eq cats_text example_cats_def unreadable_text)
  ultimately show ?thesis by simp
qed

lemma rows_ngos_with_idle: "rows ngos_with_idle = [red_cross, idle]"
  by (simp add: ngos_with_idle_def)

lemma fst_idle: "fst idle = ''Idle Relief''"
  by (simp add: idle_def)

lemma cats_with_idle: "cats_of needs_example ngos_with_idle = example_cats"
  by (simp add: cats_of_def needs_example_def ngos_with_idle_def example_cats_def)

lemma restrict_idle: "restrict idle example_cats = [Fin 0, Fin 0]"
  by (simp add: restrict_def cells_def idle_def example_cats_def)

lemma norm_idle: "linalg_norm (restrict idle example_cats) = Fin 0"
  by (simp add: restrict_idle linalg_norm_def)

lemma readable_with_idle: "\<not> unreadable needs_example ngos_with_idle"
  by (simp add: unreadable_def rows_ngos_with_idle rows_examples no_text_columns
      numeric_examples)

lemma label_row_red_cross: "label_row example_cats red_cross gorkha = Some example_pair"
  using score_pair_numeric[of red_cross example_cats gorkha] score_pair_example
  by (simp add: no_text_columns numeric_examples)

text \<open>
  The two scripts on the tables above, and \<open>compute_fitness.py\<close> on a capability table
  that holds the Red Cross and an NGO with no capability at all, whose row is kept with
  match 0.
\<close>

theorem batch_error_policies_witness:
  "raises_only_exceptions constant_model
   \<and> example_cats \<noteq> []
   \<and> linalg_norm (restrict idle example_cats) = Fin 0
   \<and> restrict gorkha example_cats = map Fin [0, 100]
   \<and> ''Local Aid'' \<in> set (map fst (rows ngos_text))
   \<and> ''Gorkha'' \<in> set (map fst (rows needs_example))
   \<and> holds_str (rows ngos_text) ''Local Aid'' (cats_of needs_example ngos_text)
   \<and> compute_fitness needs_example ngos_text
       = Inl (ValueError ''could not convert string to float'')
   \<and> compute_fitness needs_example ngos_with_idle = Inr [example_pair, idle_pair]
   \<and> label_row example_cats idle gorkha = Some idle_pair
   \<and> kept (outcomes constant_model needs_example ngos_text
              [''Local Aid'', ''Red Cross''] [''Gorkha'']) = [gap_pair]
   \<and> swallowed (outcomes constant_model needs_example ngos_text
              [''Local Aid'', ''Red Cross''] [''Gorkha''])
       = [(''Local Aid'', ''Gorkha'', TypeError)]
   \<and> saved_csv (generate_all_scores constant_model needs_example ngos_text) = Some [gap_pair]
   \<and> try_body constant_model needs_example ngos_text ''Local Aid'' ''Gorkha'' = Inl TypeError"
proof -
  have h1: "raises_only_exceptions constant_model"
    by (rule constant_model_raises_only_exceptions)
  have h2: "example_cats \<noteq> []" by (simp add: example_cats_def)
  have h3: "linalg_norm (restrict idle example_cats) = Fin 0" by (rule norm_idle)
  have h4: "restrict gorkha example_cats = map Fin [0, 100]" by (simp add: restrict_gorkha)
  have h5: "''Local Aid'' \<in> set (map fst (rows ngos_text))"
    by (simp add: rows_ngos_text fst_text)
  have h6: "''Gorkha'' \<in> set (map fst (rows needs_example))"
    by (simp add: rows_examples fst_examples)
  have h7: "holds_str (rows ngos_text) ''Local Aid'' (cats_of needs_example ngos_text)"
    by (simp add: cats_text holds_str_text)
  note t = batch_error_policies[OF h1, of needs_example ngos_text example_cats idle gorkha
      "[0, 100]" "''Local Aid''" "''Gorkha''"]
  note t' = batch_error_policies[OF h1, of needs_example ngos_with_idle example_cats idle
      gorkha "[0, 100]" "''Local Aid''" "''Gorkha''"]
  have u: "mean_need_urgency [0, 100] = 1 / 2" by (simp add: mean_need_urgency_def)
  have c1: "compute_fitness needs_example ngos_text
       = Inl (ValueError ''could not convert string to float'')"
    using t by (simp add: cats_text example_cats_def unreadable_text)
  have c3: "label_row example_cats idle gorkha = Some idle_pair"
    using t h2 h3 h4 by (simp add: u idle_pair_def fst_idle fst_examples)
  have "compute_fitness needs_example ngos_with_idle
      = Inr (expected_labels needs_example ngos_with_idle)"
    using t' by (simp add: cats_with_idle example_cats_def readable_with_idle)
  then have c2: "compute_fitness needs_example ngos_with_idle = Inr [example_pair, idle_pair]"
    by (simp add: expected_labels_def cats_with_idle rows_ngos_with_idle rows_examples
        map_filter_Cons label_row_red_cross c3 List.map_filter_def)
  have o: "outcomes constant_model needs_example ngos_text [''Local Aid'', ''Red Cross'']
      [''Gorkha'']
      = [(''Local Aid'', ''Gorkha'', Inl TypeError), (''Red Cross'', ''Gorkha'', Inr gap_pair)]"
    by (simp add: outcomes_def try_body_gap try_body_local_aid)
  have c4: "kept (outcomes constant_model needs_example ngos_text
      [''Local Aid'', ''Red Cross''] [''Gorkha'']) = [gap_pair]"
    by (simp add: o kept_Cons kept_Nil)
  have c5: "swallowed (outcomes constant_model needs_example ngos_text
      [''Local Aid'', ''Red Cross''] [''Gorkha'']) = [(''Local Aid'', ''Gorkha'', TypeError)]"
    by (simp add: o swallowed_Cons swallowed_Nil)
  have "generate_all_scores constant_model needs_example ngos_text =
      (let os = outcomes constant_model needs_example ngos_text
                  (sort (remdups (map fst (rows ngos_text))))
                  (sort (remdups (map fst (rows needs_example))))
       in \<lparr>saved_csv = Some (kept os), printed_errors = swallowed os,
           returned = (if kept os = [] then Inl (KeyError ''match'') else Inr (kept os))\<rparr>)"
    using t by blast
  then have c6: "saved_csv (generate_all_scores constant_model needs_example ngos_text)
      = Some [gap_pair]"
    by (simp add: Let_def rows_ngos_text rows_examples fst_text fst_examples sorted_names c4)
  have c7: "try_body constant_model needs_example ngos_text ''Local Aid'' ''Gorkha''
      = Inl TypeError"
    using t h5 h6 h7 by blast
  show ?thesis using h1 h2 h3 h4 h5 h6 h7 c1 c2 c3 c4 c6 c5 c7 by blast
qed

section \<open>Zero norms in general\<close>

text \<open>
  The guarded cosine returns 0 whenever a norm is 0. The unguarded one is the cosine
  similarity on finite vectors of equal length with non-zero norms, and returns NaN on
  every pair of finite vectors of equal length of which one has norm 0: the dot product
  is then 0 as well, and the quotient is 0 / 0.
\<close>

lemma cosine_compute_fitness_zero_norm:
  "linalg_norm a = Fin 0 \<or> linalg_norm b = Fin 0 \<Longrightarrow>
   cosine_compute_fitness a b = Inr (Fin 0)"
  by (simp add: cosine_compute_fitness_def)

lemma sum_squares_zero_iff:
  "sum_list (map (\<lambda>x. x * x) a) = 0 \<longleftrightarrow> (\<forall>x \<in> set a. x = (0::real))"
proof (induction a)
  case Nil
  show ?case by simp
next
  case (Cons x xs)
  have "x * x + sum_list (map (\<lambda>x. x * x) xs) = 0
        \<longleftrightarrow> x * x = 0 \<and> sum_list (map (\<lambda>x. x * x) xs) = 0"
    using sum_squares_nonneg[of xs] by (simp add: add_nonneg_eq_0_iff)
  with Cons show ?case by simp
qed

lemma dot_zero:
  fixes a b :: "real list"
  assumes "(\<forall>x \<in> set a. x = 0) \<or> (\<forall>y \<in> set b. y = 0)"
  shows "sum_list (map2 (*) a b) = 0"
proof -
  have "z = 0" if "z \<in> set (map2 (*) a b)" for z
  proof -
    from that obtain x y where xy: "(x, y) \<in> set (zip a b)" "z = x * y" by auto
    from xy(1) have "x \<in> set a" "y \<in> set b"
      by (rule set_zip_leftD, rule set_zip_rightD)
    then have "x = 0 \<or> y = 0" using assms by blast
    then show ?thesis using xy(2) by auto
  qed
  then have "\<forall>z \<in> set (map2 (*) a b). z = 0" by blast
  then have "map2 (*) a b = replicate (length (map2 (*) a b)) 0"
    by (simp only: replicate_length_same[symmetric])
  then have "sum_list (map2 (*) a b) = sum_list (replicate (length (map2 (*) a b)) (0::real))"
    by simp
  then show ?thesis by (simp only: sum_list_replicate mult_zero_right)
qed

lemma cosine_predict_Fin:
  assumes len: "length cs = length ns"
    and nz: "euclidean_norm cs \<noteq> 0" "euclidean_norm ns \<noteq> 0"
  shows "cosine_predict (map Fin cs) (map Fin ns) = Inr (Fin (cosine_similarity cs ns))"
proof -
  from nz have "euclidean_norm cs * euclidean_norm ns \<noteq> 0" by simp
  with nz show ?thesis
    by (simp add: cosine_predict_def linalg_norm_Fin np_dot_Fin[OF len] np_truediv_def
        cosine_similarity_def)
qed

lemma cosine_predict_zero_norm:
  assumes len: "length xs = length ys"
    and zero: "linalg_norm (map Fin xs) = Fin 0 \<or> linalg_norm (map Fin ys) = Fin 0"
  shows "cosine_predict (map Fin xs) (map Fin ys) = Inr NaN"
proof -
  define na where "na = sqrt (sum_list (map (\<lambda>x. x * x) xs))"
  define nb where "nb = sqrt (sum_list (map (\<lambda>x. x * x) ys))"
  from zero have z: "na = 0 \<or> nb = 0"
    by (simp add: linalg_norm_Fin euclidean_norm_def na_def nb_def)
  then have "(\<forall>x \<in> set xs. x = 0) \<or> (\<forall>y \<in> set ys. y = 0)"
    by (simp add: na_def nb_def sum_squares_zero_iff)
  then have d: "sum_list (map2 (*) xs ys) = 0" by (rule dot_zero)
  from z have p: "na * nb = 0" by auto
  show ?thesis
    using d p
    by (simp add: cosine_predict_def np_dot_Fin[OF len] linalg_norm_Fin np_truediv_def
        euclidean_norm_def dot_product_def na_def nb_def)
qed

end
